theory Spec2Isabelle
  imports Complex_Main "HOL-Library.AList"
begin

section \<open>Conventions of the embedding\<close>

text \<open>
  The development embeds the scoring engine of the POET benchmark and its knowledge
  base: \<^verbatim>\<open>src/poet_benchmark.py\<close>, \<^verbatim>\<open>src/utils/efficiency_evaluator_clean.py\<close> and
  \<^verbatim>\<open>src/utils/strategic_evaluator.py\<close>.

  Python floats are idealised as \<^typ>\<open>real\<close> (no rounding, no NaN, no infinities),
  Python integers are \<^typ>\<open>int\<close>, strings are \<^typ>\<open>string\<close>. An exception that leaves a
  function is the \<open>Inl\<close> branch of its result; an exception caught inside a function is
  a branch of its definition. Most functions whose source has no path that raises are
  plain total functions. Readings of the clock (\<^verbatim>\<open>time.time()\<close>, \<^verbatim>\<open>datetime.now()\<close>) are
  arguments of the operation that reads them.
\<close>

datatype py_error = ValueError | TypeError | KeyError

text \<open>Sequencing: the first exception raised ends the computation.\<close>

definition py_bind :: "py_error + 'a \<Rightarrow> ('a \<Rightarrow> py_error + 'b) \<Rightarrow> py_error + 'b" where
  "py_bind r f = (case r of Inl e \<Rightarrow> Inl e | Inr x \<Rightarrow> f x)"

section \<open>Efficiency evaluator\<close>

text \<open>The dataclass \<^verbatim>\<open>EfficiencyMetrics\<close>; its \<^verbatim>\<open>Optional\<close> fields are options.\<close>

record EfficiencyMetrics =
  em_task_id :: string
  em_task_title :: string
  em_start_time :: real
  em_end_time :: real
  completion_time_seconds :: real
  input_tokens :: int
  output_tokens :: int
  total_tokens :: int
  estimated_cost_usd :: real
  em_expert_time_hours :: "real option"
  em_expert_hourly_rate_usd :: "real option"
  automation_rate :: "real option"
  cost_saving_usd :: "real option"
  task_success :: bool
  em_error_count :: int

text \<open>
  The attributes of an \<^verbatim>\<open>EfficiencyEvaluator\<close> instance. The dictionary \<^verbatim>\<open>token_usage\<close>
  always has exactly the keys \<^verbatim>\<open>"input"\<close> and \<^verbatim>\<open>"output"\<close> and is kept as two fields.
  \<^verbatim>\<open>current_task_title\<close> is not assigned by the constructor, hence an option.
\<close>

record EfficiencyEvaluator =
  expert_time_hours :: real
  expert_hourly_rate_usd :: real
  token_cost_per_1k_input :: real
  token_cost_per_1k_output :: real
  current_task_id :: "string option"
  current_task_title :: "string option"
  start_time :: "real option"
  token_usage_input :: int
  token_usage_output :: int
  error_count :: int

definition EfficiencyEvaluator_init :: "real \<Rightarrow> real \<Rightarrow> real \<Rightarrow> real \<Rightarrow> EfficiencyEvaluator" where
  "EfficiencyEvaluator_init eth rate cin cout =
     \<lparr> expert_time_hours = eth, expert_hourly_rate_usd = rate,
       token_cost_per_1k_input = cin, token_cost_per_1k_output = cout,
       current_task_id = None, current_task_title = None, start_time = None,
       token_usage_input = 0, token_usage_output = 0, error_count = 0 \<rparr>"

text \<open>
  \<^verbatim>\<open>start_task\<close>: five assignments and a log line; \<open>now\<close> is \<^verbatim>\<open>time.time()\<close>. The
  source has no check of the evaluator's state and no statement that raises, so the
  result is always \<open>Inr\<close>.
\<close>

definition start_task ::
  "EfficiencyEvaluator \<Rightarrow> real \<Rightarrow> string \<Rightarrow> string \<Rightarrow> py_error + EfficiencyEvaluator" where
  "start_task ev now task_id task_title =
     Inr (ev\<lparr> current_task_id := Some task_id,
              current_task_title := Some task_title,
              start_time := Some now,
              token_usage_input := 0,
              token_usage_output := 0,
              error_count := 0 \<rparr>)"

definition add_token_usage :: "EfficiencyEvaluator \<Rightarrow> int \<Rightarrow> int \<Rightarrow> EfficiencyEvaluator" where
  "add_token_usage ev inp outp =
     ev\<lparr> token_usage_input := token_usage_input ev + inp,
         token_usage_output := token_usage_output ev + outp \<rparr>"

definition add_error :: "EfficiencyEvaluator \<Rightarrow> EfficiencyEvaluator" where
  "add_error ev = ev\<lparr> error_count := error_count ev + 1 \<rparr>"

definition calculate_cost :: "EfficiencyEvaluator \<Rightarrow> int \<Rightarrow> int \<Rightarrow> real" where
  "calculate_cost ev inp outp =
     (let input_cost = (real_of_int inp / 1000) * token_cost_per_1k_input ev;
          output_cost = (real_of_int outp / 1000) * token_cost_per_1k_output ev
      in input_cost + output_cost)"

definition calculate_automation_rate :: "EfficiencyEvaluator \<Rightarrow> real \<Rightarrow> real" where
  "calculate_automation_rate ev completion =
     (let ai_time_hours = completion / 3600
      in if expert_time_hours ev \<le> 0 then 1
         else (let rate = 1 - (ai_time_hours / expert_time_hours ev)
               in max 0 (min 1 rate)))"

definition calculate_cost_saving :: "EfficiencyEvaluator \<Rightarrow> real \<Rightarrow> real" where
  "calculate_cost_saving ev completion =
     (let expert_cost = expert_time_hours ev * expert_hourly_rate_usd ev;
          ai_cost = calculate_cost ev (token_usage_input ev) (token_usage_output ev)
      in max 0 (expert_cost - ai_cost))"

text \<open>
  \<^verbatim>\<open>end_task\<close>: raises \<^verbatim>\<open>ValueError\<close> when no task is current; the subtraction
  \<^verbatim>\<open>end_time - self.start_time\<close> raises \<^verbatim>\<open>TypeError\<close> when the start time is \<^verbatim>\<open>None\<close>,
  and reading \<^verbatim>\<open>self.current_task_title\<close> raises when it was never assigned
  (\<^verbatim>\<open>AttributeError\<close>, folded into \<^const>\<open>TypeError\<close> here). On success it returns the
  metrics and the evaluator with the current task cleared.
\<close>

definition end_task ::
  "EfficiencyEvaluator \<Rightarrow> real \<Rightarrow> bool \<Rightarrow> py_error + (EfficiencyMetrics \<times> EfficiencyEvaluator)" where
  "end_task ev now success =
     (case current_task_id ev of
        None \<Rightarrow> Inl ValueError
      | Some tid \<Rightarrow>
         (case start_time ev of
            None \<Rightarrow> Inl TypeError
          | Some t0 \<Rightarrow>
             (let completion = now - t0;
                  estimated_cost = calculate_cost ev (token_usage_input ev) (token_usage_output ev);
                  rate = calculate_automation_rate ev completion;
                  saving = calculate_cost_saving ev completion
              in (case current_task_title ev of
                    None \<Rightarrow> Inl TypeError
                  | Some title \<Rightarrow>
                     Inr (\<lparr> em_task_id = tid, em_task_title = title,
                            em_start_time = t0, em_end_time = now,
                            completion_time_seconds = completion,
                            input_tokens = token_usage_input ev,
                            output_tokens = token_usage_output ev,
                            total_tokens = token_usage_input ev + token_usage_output ev,
                            estimated_cost_usd = estimated_cost,
                            em_expert_time_hours = Some (expert_time_hours ev),
                            em_expert_hourly_rate_usd = Some (expert_hourly_rate_usd ev),
                            automation_rate = Some rate,
                            cost_saving_usd = Some saving,
                            task_success = success,
                            em_error_count = error_count ev \<rparr>,
                          ev\<lparr> current_task_id := None, start_time := None \<rparr>)))))"

text \<open>The clamp of the specification, in its own words: \<open>x\<close> cut to the interval \<open>[lo, hi]\<close>.\<close>

definition clamp :: "real \<Rightarrow> real \<Rightarrow> real \<Rightarrow> real" where
  "clamp x lo hi = (if x < lo then lo else if hi < x then hi else x)"

text \<open>A task is running between \<^const>\<open>start_task\<close> and \<^const>\<open>end_task\<close>.\<close>

definition running :: "EfficiencyEvaluator \<Rightarrow> bool" where
  "running ev \<longleftrightarrow> current_task_id ev \<noteq> None"


text \<open>
  An evaluator in the middle of a task: constructed with the defaults of
  \<^verbatim>\<open>POETBenchmark\<close>, started at time \<open>100\<close>, with token usage and one error recorded.
\<close>

definition ev_in_flight :: EfficiencyEvaluator where
  "ev_in_flight =
     \<lparr> expert_time_hours = 2, expert_hourly_rate_usd = 100,
       token_cost_per_1k_input = 0.0015, token_cost_per_1k_output = 0.006,
       current_task_id = Some ''task-1'', current_task_title = Some ''first'',
       start_time = Some 100,
       token_usage_input = 1300, token_usage_output = 2600, error_count = 1 \<rparr>"

text \<open>The same evaluator with an expert baseline of zero hours.\<close>

definition ev_no_baseline :: EfficiencyEvaluator where
  "ev_no_baseline = ev_in_flight\<lparr> expert_time_hours := 0 \<rparr>"

section \<open>Configuration\<close>

text \<open>
  The configuration is a nested Python dictionary read from JSON. A dictionary is an
  association list in insertion order; \<^const>\<open>AList.update\<close> overwrites an existing key in
  place and appends a new one, as assignment to a \<^verbatim>\<open>dict\<close> entry does.
\<close>

datatype json =
    JNull
  | JBool bool
  | JNum real
  | JStr string
  | JArr "json list"
  | JObj "(string \<times> json) list"

type_synonym py_dict = "(string \<times> json) list"

text \<open>\<^verbatim>\<open>d[k]\<close>: \<^verbatim>\<open>KeyError\<close> on a missing key, \<^verbatim>\<open>TypeError\<close> when \<open>d\<close> cannot be indexed by a string.\<close>

definition subscript :: "json \<Rightarrow> string \<Rightarrow> py_error + json" where
  "subscript d k =
     (case d of
        JObj kvs \<Rightarrow> (case map_of kvs k of None \<Rightarrow> Inl KeyError | Some v \<Rightarrow> Inr v)
      | _ \<Rightarrow> Inl TypeError)"

text \<open>
  The right operand of \<^verbatim>\<open>float * w\<close>: a JSON number, or a Boolean (an \<^verbatim>\<open>int\<close> in Python);
  anything else raises \<^verbatim>\<open>TypeError\<close>.
\<close>

definition float_times :: "real \<Rightarrow> json \<Rightarrow> py_error + real" where
  "float_times x w =
     (case w of
        JNum r \<Rightarrow> Inr (x * r)
      | JBool b \<Rightarrow> Inr (x * (if b then 1 else 0))
      | _ \<Rightarrow> Inl TypeError)"

definition default_config :: py_dict where
  "default_config =
     [(''poet_weights'', JObj
         [(''efficiency_value'', JNum 0.30),
          (''quality_value'', JNum 0.50),
          (''strategic_value'', JNum 0.20)]),
      (''quality_value_weights'', JObj
         [(''race_score'', JNum 0.70),
          (''fact_score'', JNum 0.30)]),
      (''efficiency_weights'', JObj
         [(''time_weight'', JNum 0.40),
          (''cost_weight'', JNum 0.30),
          (''automation_weight'', JNum 0.30)]),
      (''strategic_weights'', JObj
         [(''task_capability'', JNum 0.60),
          (''knowledge_capability'', JNum 0.40)]),
      (''task_complexity_mapping'', JObj
         [(''simple'', JNum 1),
          (''moderate'', JNum 2),
          (''complex'', JNum 3),
          (''advanced'', JNum 4),
          (''expert'', JNum 5)]),
      (''domain_expert_rates'', JObj
         [(''finance'', JNum 150.0),
          (''legal'', JNum 200.0),
          (''medical'', JNum 180.0),
          (''technology'', JNum 120.0),
          (''marketing'', JNum 100.0),
          (''general'', JNum 100.0)]),
      (''domain_expert_times'', JObj
         [(''finance'', JNum 3.0),
          (''legal'', JNum 4.0),
          (''medical'', JNum 5.0),
          (''technology'', JNum 2.0),
          (''marketing'', JNum 2.0),
          (''general'', JNum 2.0)]),
      (''default_expert_time'', JNum 2.0),
      (''default_expert_rate'', JNum 100.0),
      (''knowledge_base_path'', JStr ''poet_knowledge_base.json'')]"

text \<open>
  \<^verbatim>\<open>_deep_update\<close>: for each entry of the update in order, recurse when both sides hold a
  dictionary under the key, otherwise assign. The recursion descends into the update.
\<close>

function deep_update :: "py_dict \<Rightarrow> py_dict \<Rightarrow> py_dict" where
  "deep_update base_dict [] = base_dict"
| "deep_update base_dict ((key, value) # rest) =
     deep_update
       (case (map_of base_dict key, value) of
          (Some (JObj b), JObj u) \<Rightarrow> AList.update key (JObj (deep_update b u)) base_dict
        | _ \<Rightarrow> AList.update key value base_dict)
       rest"
  by pat_completeness auto
termination
  by (relation "measure (\<lambda>(b, u). size_list (size_prod (\<lambda>_. 0) size) u)") auto

text \<open>
  What \<^verbatim>\<open>_load_config\<close> finds at \<^verbatim>\<open>config_path\<close>: no path or no such file; a file that
  cannot be opened or parsed (\<^verbatim>\<open>open\<close> or \<^verbatim>\<open>json.load\<close> raises); or a parsed JSON value.
\<close>

datatype config_source = NoConfigFile | UnreadableConfig | ParsedConfig json

text \<open>
  \<^verbatim>\<open>_load_config\<close>: every exception of the \<^verbatim>\<open>try\<close> block is caught and logged, and the
  default configuration is returned. A parsed value that is no dictionary raises at
  \<^verbatim>\<open>update_dict.items()\<close>, before anything is changed. No check of any value is made.
\<close>

definition load_config :: "config_source \<Rightarrow> py_dict" where
  "load_config src =
     (case src of
        NoConfigFile \<Rightarrow> default_config
      | UnreadableConfig \<Rightarrow> default_config
      | ParsedConfig user_config \<Rightarrow>
          (case user_config of
             JObj u \<Rightarrow> deep_update default_config u
           | _ \<Rightarrow> default_config))"

text \<open>\<^verbatim>\<open>d.get(k, dflt)\<close>.\<close>

definition dict_get :: "py_dict \<Rightarrow> string \<Rightarrow> json \<Rightarrow> json" where
  "dict_get d k dflt = (case map_of d k of None \<Rightarrow> dflt | Some v \<Rightarrow> v)"

text \<open>
  \<^verbatim>\<open>AIClient.__init__\<close> raises \<^verbatim>\<open>ValueError\<close> when no API key is set in the environment.
\<close>

definition AIClient_init :: "string \<Rightarrow> py_error + string" where
  "AIClient_init api_key = (if api_key = [] then Inl ValueError else Inr api_key)"

text \<open>
  \<^verbatim>\<open>KnowledgeBase.__init__\<close> passes the configured path to \<^verbatim>\<open>os.path.exists\<close> outside of any
  \<^verbatim>\<open>try\<close>; a path that is no string raises \<^verbatim>\<open>TypeError\<close> there. (Python accepts an integer
  as a file descriptor; the model is cautious and takes every path that is no string
  as a failure.)
\<close>

definition kb_path_of :: "json \<Rightarrow> py_error + string" where
  "kb_path_of p = (case p of JStr path \<Rightarrow> Inr path | _ \<Rightarrow> Inl TypeError)"

text \<open>
  \<^verbatim>\<open>POETBenchmark.__init__\<close>: load the configuration, construct the client, the
  efficiency evaluator (which stores its arguments unchecked), the knowledge base and
  the strategic evaluator. The benchmark object is represented by its \<^verbatim>\<open>config\<close>
  attribute, which is all the scoring functions read.
\<close>

definition POETBenchmark_init :: "config_source \<Rightarrow> string \<Rightarrow> py_error + py_dict" where
  "POETBenchmark_init src api_key =
     (let config = load_config src
      in py_bind (AIClient_init api_key) (\<lambda>_.
         py_bind (kb_path_of (dict_get config ''knowledge_base_path''
                                (JStr ''poet_knowledge_base.json''))) (\<lambda>_.
           Inr config)))"

section \<open>Score aggregation\<close>

text \<open>\<^verbatim>\<open>calculate_quality_score\<close>; the parameter \<^verbatim>\<open>fact_citations\<close> is never read.\<close>

definition calculate_quality_score :: "py_dict \<Rightarrow> real \<Rightarrow> real \<Rightarrow> int \<Rightarrow> py_error + real" where
  "calculate_quality_score config race_score fact_accuracy fact_citations =
     py_bind (subscript (JObj config) ''quality_value_weights'') (\<lambda>weights.
       let normalized_race = min 1 (max 0 (race_score / 5));
           normalized_fact = min 1 (max 0 fact_accuracy)
       in py_bind (subscript weights ''race_score'') (\<lambda>w_race.
          py_bind (float_times normalized_race w_race) (\<lambda>race_part.
          py_bind (subscript weights ''fact_score'') (\<lambda>w_fact.
          py_bind (float_times normalized_fact w_fact) (\<lambda>fact_part.
            Inr (race_part + fact_part))))))"

text \<open>\<^verbatim>\<open>calculate_poet_score\<close> returns the score and the breakdown dictionary.\<close>

definition calculate_poet_score ::
  "py_dict \<Rightarrow> real \<Rightarrow> real \<Rightarrow> real \<Rightarrow> py_error + (real \<times> (string \<times> real) list)" where
  "calculate_poet_score config efficiency_score quality_score strategic_score =
     py_bind (subscript (JObj config) ''poet_weights'') (\<lambda>weights.
     py_bind (subscript weights ''efficiency_value'') (\<lambda>w_e.
     py_bind (float_times efficiency_score w_e) (\<lambda>e_part.
     py_bind (subscript weights ''quality_value'') (\<lambda>w_q.
     py_bind (float_times quality_score w_q) (\<lambda>q_part.
     py_bind (subscript weights ''strategic_value'') (\<lambda>w_s.
     py_bind (float_times strategic_score w_s) (\<lambda>s_part.
       let poet_score = e_part + q_part + s_part;
           breakdown = [(''efficiency_value'', efficiency_score),
                        (''quality_value'', quality_score),
                        (''strategic_value'', strategic_score)]
       in Inr (poet_score, breakdown))))))))"

text \<open>
  The three top-level weights of a configuration, read the way \<^const>\<open>calculate_poet_score\<close>
  reads them: \<open>None\<close> when one is missing or is no number.
\<close>

definition weight_of :: "py_dict \<Rightarrow> string \<Rightarrow> real option" where
  "weight_of config k =
     (case map_of config ''poet_weights'' of
        Some (JObj ws) \<Rightarrow> (case map_of ws k of Some (JNum r) \<Rightarrow> Some r | _ \<Rightarrow> None)
      | _ \<Rightarrow> None)"

definition poet_weights :: "py_dict \<Rightarrow> (real \<times> real \<times> real) option" where
  "poet_weights config =
     (case (weight_of config ''efficiency_value'', weight_of config ''quality_value'',
            weight_of config ''strategic_value'') of
        (Some we, Some wq, Some ws) \<Rightarrow> Some (we, wq, ws)
      | _ \<Rightarrow> None)"


text \<open>The two quality sub-weights, read the way \<^const>\<open>calculate_quality_score\<close> reads them.\<close>

definition quality_weights :: "py_dict \<Rightarrow> (real \<times> real) option" where
  "quality_weights config =
     (case map_of config ''quality_value_weights'' of
        Some (JObj ws) \<Rightarrow>
          (case (map_of ws ''race_score'', map_of ws ''fact_score'') of
             (Some (JNum w_race), Some (JNum w_fact)) \<Rightarrow> Some (w_race, w_fact)
           | _ \<Rightarrow> None)
      | _ \<Rightarrow> None)"

text \<open>
  Dictionaries read from JSON have no key twice; that is all \<open>wf_dict\<close> asks of the
  top level of a dictionary.
\<close>

definition wf_dict :: "py_dict \<Rightarrow> bool" where
  "wf_dict d \<longleftrightarrow> distinct (map fst d)"

text \<open>
  Two configuration files: one whose top-level weights sum to \<open>0.9\<close>, and one whose
  weights sum to \<open>1\<close> with a negative quality weight.
\<close>

definition user_config_09 :: json where
  "user_config_09 =
     JObj [(''poet_weights'', JObj
              [(''efficiency_value'', JNum 0.3),
               (''quality_value'', JNum 0.4),
               (''strategic_value'', JNum 0.2)])]"

definition user_config_negative :: json where
  "user_config_negative =
     JObj [(''poet_weights'', JObj
              [(''efficiency_value'', JNum 1.5),
               (''quality_value'', JNum (- 0.5)),
               (''strategic_value'', JNum 0)])]"

section \<open>Timestamps\<close>

text \<open>
  A naive \<^verbatim>\<open>datetime\<close> object, as \<^verbatim>\<open>datetime.now()\<close> returns it. Python keeps its fields
  in the ranges of \<open>valid_datetime\<close>.
\<close>

record datetime =
  year :: nat
  month :: nat
  day :: nat
  hour :: nat
  minute :: nat
  second :: nat
  microsecond :: nat

definition is_leap :: "nat \<Rightarrow> bool" where
  "is_leap y \<longleftrightarrow> y mod 4 = 0 \<and> (y mod 100 \<noteq> 0 \<or> y mod 400 = 0)"

definition days_in_month :: "nat \<Rightarrow> nat \<Rightarrow> nat" where
  "days_in_month y m =
     (if m = 2 then (if is_leap y then 29 else 28)
      else if m = 4 \<or> m = 6 \<or> m = 9 \<or> m = 11 then 30 else 31)"

definition valid_datetime :: "datetime \<Rightarrow> bool" where
  "valid_datetime t \<longleftrightarrow>
     1 \<le> year t \<and> year t \<le> 9999 \<and> 1 \<le> month t \<and> month t \<le> 12
     \<and> 1 \<le> day t \<and> day t \<le> days_in_month (year t) (month t)
     \<and> hour t < 24 \<and> minute t < 60 \<and> second t < 60 \<and> microsecond t < 1000000"

text \<open>The last decimal digit of a number as a character, and its inverse on digits.\<close>

definition digit_char :: "nat \<Rightarrow> char" where
  "digit_char d = ''0123456789'' ! (d mod 10)"

definition is_digit :: "char \<Rightarrow> bool" where
  "is_digit c \<longleftrightarrow> 48 \<le> (of_char c :: nat) \<and> (of_char c :: nat) \<le> 57"

definition digit_val :: "char \<Rightarrow> nat" where
  "digit_val c = of_char c - 48"

text \<open>Zero-padded decimals of width two, four and six (\<^verbatim>\<open>%02d\<close>, \<^verbatim>\<open>%04d\<close>, \<^verbatim>\<open>%06d\<close>).\<close>

definition pad2 :: "nat \<Rightarrow> string" where
  "pad2 n = [digit_char (n div 10), digit_char n]"

definition pad4 :: "nat \<Rightarrow> string" where
  "pad4 n = [digit_char (n div 1000), digit_char (n div 100),
             digit_char (n div 10), digit_char n]"

definition pad6 :: "nat \<Rightarrow> string" where
  "pad6 n = [digit_char (n div 100000), digit_char (n div 10000),
             digit_char (n div 1000), digit_char (n div 100),
             digit_char (n div 10), digit_char n]"

text \<open>A run of decimal digits as a number; \<open>None\<close> when a character is no digit.\<close>

fun digits_val :: "string \<Rightarrow> nat option" where
  "digits_val [] = Some 0"
| "digits_val (c # cs) =
     (if is_digit c
      then (case digits_val cs of
              None \<Rightarrow> None
            | Some n \<Rightarrow> Some (digit_val c * 10 ^ length cs + n))
      else None)"

text \<open>
  \<^verbatim>\<open>datetime.isoformat()\<close> of a naive datetime: \<^verbatim>\<open>YYYY-MM-DDTHH:MM:SS\<close>, followed by
  \<^verbatim>\<open>.ffffff\<close> when the microseconds are not zero.
\<close>

definition isoformat :: "datetime \<Rightarrow> string" where
  "isoformat t =
     pad4 (year t) @ CHR ''-'' # pad2 (month t) @ CHR ''-'' # pad2 (day t) @ CHR ''T'' #
     pad2 (hour t) @ CHR '':'' # pad2 (minute t) @ CHR '':'' # pad2 (second t) @
     (if microsecond t = 0 then [] else CHR ''.'' # pad6 (microsecond t))"

text \<open>
  \<^verbatim>\<open>datetime.fromisoformat\<close> on the two shapes \<^const>\<open>isoformat\<close> writes; a field out of
  range raises \<^verbatim>\<open>ValueError\<close> (here \<open>None\<close>). Other texts, some of which Python also
  accepts, are taken as failures: the model covers snapshots written by the store.
\<close>

definition make_datetime ::
  "nat option \<Rightarrow> nat option \<Rightarrow> nat option \<Rightarrow> nat option \<Rightarrow> nat option \<Rightarrow> nat option
     \<Rightarrow> nat option \<Rightarrow> datetime option" where
  "make_datetime y mo d h mi s us =
     (case (y, mo, d, h, mi, s, us) of
        (Some y', Some mo', Some d', Some h', Some mi', Some s', Some us') \<Rightarrow>
          (let t = \<lparr> year = y', month = mo', day = d', hour = h', minute = mi',
                     second = s', microsecond = us' \<rparr>
           in if valid_datetime t then Some t else None)
      | _ \<Rightarrow> None)"

fun fromisoformat :: "string \<Rightarrow> datetime option" where
  "fromisoformat (y1 # y2 # y3 # y4 # sep1 # m1 # m2 # sep2 # d1 # d2 # sepT #
                  h1 # h2 # sep3 # mi1 # mi2 # sep4 # s1 # s2 # rest) =
     (if sep1 = CHR ''-'' \<and> sep2 = CHR ''-'' \<and> sepT = CHR ''T''
         \<and> sep3 = CHR '':'' \<and> sep4 = CHR '':''
      then (case rest of
              [] \<Rightarrow>
                make_datetime (digits_val [y1, y2, y3, y4]) (digits_val [m1, m2])
                  (digits_val [d1, d2]) (digits_val [h1, h2]) (digits_val [mi1, mi2])
                  (digits_val [s1, s2]) (Some 0)
            | [dot, f1, f2, f3, f4, f5, f6] \<Rightarrow>
                (if dot = CHR ''.''
                 then make_datetime (digits_val [y1, y2, y3, y4]) (digits_val [m1, m2])
                        (digits_val [d1, d2]) (digits_val [h1, h2]) (digits_val [mi1, mi2])
                        (digits_val [s1, s2]) (digits_val [f1, f2, f3, f4, f5, f6])
                 else None)
            | _ \<Rightarrow> None)
      else None)"
| "fromisoformat _ = None"

section \<open>Strings and sets\<close>

text \<open>
  Strings are lists of 8-bit characters. \<^verbatim>\<open>str.lower()\<close> is modelled on the ASCII letters
  and \<^verbatim>\<open>str.split()\<close> on the ASCII white space; other characters are left as they are.
\<close>

definition char_lower :: "char \<Rightarrow> char" where
  "char_lower c =
     (case map_of (zip ''ABCDEFGHIJKLMNOPQRSTUVWXYZ'' ''abcdefghijklmnopqrstuvwxyz'') c of
        Some l \<Rightarrow> l
      | None \<Rightarrow> c)"

definition str_lower :: "string \<Rightarrow> string" where
  "str_lower s = map char_lower s"

definition is_space :: "char \<Rightarrow> bool" where
  "is_space c \<longleftrightarrow>
     c \<in> set [CHR 0x09, CHR 0x0A, CHR 0x0B, CHR 0x0C, CHR 0x0D,
              CHR 0x1C, CHR 0x1D, CHR 0x1E, CHR 0x1F, CHR 0x20]"

text \<open>\<^verbatim>\<open>str.split()\<close> without arguments: the maximal runs of characters that are no white space.\<close>

fun split_acc :: "string \<Rightarrow> string \<Rightarrow> string list" where
  "split_acc cur [] = (if cur = [] then [] else [cur])"
| "split_acc cur (c # cs) =
     (if is_space c
      then (if cur = [] then split_acc [] cs else cur # split_acc [] cs)
      else split_acc (cur @ [c]) cs)"

definition str_split :: "string \<Rightarrow> string list" where
  "str_split s = split_acc [] s"

text \<open>The operator \<^verbatim>\<open>sub in s\<close> on strings: \<open>sub\<close> occurs in \<open>s\<close> as a contiguous piece.\<close>

fun starts_with :: "string \<Rightarrow> string \<Rightarrow> bool" where
  "starts_with [] s = True"
| "starts_with (x # xs) [] = False"
| "starts_with (x # xs) (y # ys) = (x = y \<and> starts_with xs ys)"

fun str_contains :: "string \<Rightarrow> string \<Rightarrow> bool" where
  "str_contains sub [] = (sub = [])"
| "str_contains sub (y # ys) = (starts_with sub (y # ys) \<or> str_contains sub ys)"

text \<open>
  A Python \<^verbatim>\<open>set\<close> is kept as a list without repetitions; membership, emptiness and
  size do not depend on the order of that list.

  The order in which Python iterates over a set depends on the hashes of its elements
  and on the history of the set; the language does not fix it. Where the source
  iterates over a set, the order is therefore a parameter of the model: \<open>order\<close>
  proposes an enumeration of the set, and \<open>py_iter\<close> takes the proposal when it lists
  exactly the elements of the set, each once, and falls back to the order of the list
  otherwise. A statement proved for every \<open>order\<close> holds for every order of iteration.
\<close>

definition py_set :: "'a list \<Rightarrow> 'a list" where
  "py_set xs = remdups xs"

definition py_iter :: "('a list \<Rightarrow> 'a list) \<Rightarrow> 'a list \<Rightarrow> 'a list" where
  "py_iter order xs =
     (let ys = order xs
      in if distinct ys \<and> set ys = set xs then ys else remdups xs)"

definition set_inter :: "'a list \<Rightarrow> 'a list \<Rightarrow> 'a list" where
  "set_inter xs ys = filter (\<lambda>x. x \<in> set ys) xs"

definition set_union :: "'a list \<Rightarrow> 'a list \<Rightarrow> 'a list" where
  "set_union xs ys = xs @ filter (\<lambda>y. y \<notin> set xs) ys"

section \<open>Knowledge base\<close>

text \<open>The dataclass \<^verbatim>\<open>KnowledgeUnit\<close>; the field \<^verbatim>\<open>id\<close> is \<open>unit_id\<close> here.\<close>

record KnowledgeUnit =
  unit_id :: string
  content :: string
  domain :: string
  source_task_id :: string
  creation_time :: datetime
  usage_count :: int
  quality_score :: real
  tags :: "string list"

text \<open>
  One entry of the list \<^verbatim>\<open>knowledge_units\<close> of the snapshot file. The loader reads four
  keys by subscript and three with \<^verbatim>\<open>.get\<close> and a default; the latter are options.
\<close>

record unit_data =
  ud_id :: string
  ud_content :: string
  ud_domain :: string
  ud_source_task_id :: string
  ud_creation_time :: string
  ud_usage_count :: "int option"
  ud_quality_score :: "real option"
  ud_tags :: "string list option"

record snapshot =
  snap_units :: "unit_data list"
  total_units :: nat
  last_updated :: string

text \<open>
  The file at \<^verbatim>\<open>kb_path\<close>: absent, not readable as a snapshot (\<^verbatim>\<open>open\<close> or \<^verbatim>\<open>json.load\<close>
  raises), or a snapshot.
\<close>

datatype kb_file = NoFile | UnreadableFile | SnapshotFile snapshot

text \<open>
  The state of a \<^verbatim>\<open>KnowledgeBase\<close>: the dictionary of units in insertion order, the two
  \<^verbatim>\<open>defaultdict(list)\<close> indexes, and the file the store writes to.
\<close>

record KnowledgeBase =
  knowledge_units :: "(string \<times> KnowledgeUnit) list"
  domain_index :: "string \<rightharpoonup> string list"
  tag_index :: "string \<rightharpoonup> string list"
  kb_file :: kb_file

text \<open>\<^verbatim>\<open>index.get(k, [])\<close> and \<^verbatim>\<open>index[k].append(v)\<close> on a \<^verbatim>\<open>defaultdict(list)\<close>.\<close>

definition index_get :: "(string \<rightharpoonup> string list) \<Rightarrow> string \<Rightarrow> string list" where
  "index_get idx k = (case idx k of None \<Rightarrow> [] | Some ids \<Rightarrow> ids)"

definition index_append :: "(string \<rightharpoonup> string list) \<Rightarrow> string \<Rightarrow> string \<Rightarrow> (string \<rightharpoonup> string list)" where
  "index_append idx k v = idx(k \<mapsto> index_get idx k @ [v])"

definition unit_to_data :: "KnowledgeUnit \<Rightarrow> unit_data" where
  "unit_to_data unit =
     \<lparr> ud_id = unit_id unit,
       ud_content = content unit,
       ud_domain = domain unit,
       ud_source_task_id = source_task_id unit,
       ud_creation_time = isoformat (creation_time unit),
       ud_usage_count = Some (usage_count unit),
       ud_quality_score = Some (quality_score unit),
       ud_tags = Some (tags unit) \<rparr>"

text \<open>
  \<^verbatim>\<open>save_knowledge_base\<close>, with the clock reading \<open>now\<close>: the units in the order of the
  dictionary, and the metadata. The write is taken to succeed (a failure is logged by
  the source and leaves the store in memory unchanged).
\<close>

definition save_knowledge_base :: "KnowledgeBase \<Rightarrow> datetime \<Rightarrow> KnowledgeBase" where
  "save_knowledge_base kb now =
     kb\<lparr> kb_file := SnapshotFile
            \<lparr> snap_units = map (\<lambda>(k, unit). unit_to_data unit) (knowledge_units kb),
              total_units = length (knowledge_units kb),
              last_updated = isoformat now \<rparr> \<rparr>"

text \<open>
  \<^verbatim>\<open>add_knowledge_unit\<close>. The argument \<open>save\<close> is \<open>None\<close> for \<^verbatim>\<open>save=False\<close> and \<open>Some now\<close> for
  \<^verbatim>\<open>save=True\<close>, \<open>now\<close> being the clock reading of the save.
\<close>

definition add_knowledge_unit :: "KnowledgeBase \<Rightarrow> KnowledgeUnit \<Rightarrow> datetime option \<Rightarrow> KnowledgeBase" where
  "add_knowledge_unit kb unit save =
     (let kb1 = kb\<lparr> knowledge_units := AList.update (unit_id unit) unit (knowledge_units kb) \<rparr>;
          kb2 = kb1\<lparr> domain_index := index_append (domain_index kb1) (domain unit) (unit_id unit) \<rparr>;
          kb3 = kb2\<lparr> tag_index :=
                        foldl (\<lambda>idx tag. index_append idx tag (unit_id unit)) (tag_index kb2) (tags unit) \<rparr>
      in (case save of None \<Rightarrow> kb3 | Some now \<Rightarrow> save_knowledge_base kb3 now))"

text \<open>
  The unit built from one entry of the snapshot; \<open>None\<close> when \<^verbatim>\<open>datetime.fromisoformat\<close>
  raises.
\<close>

definition data_to_unit :: "unit_data \<Rightarrow> KnowledgeUnit option" where
  "data_to_unit d =
     (case fromisoformat (ud_creation_time d) of
        None \<Rightarrow> None
      | Some t \<Rightarrow>
          Some \<lparr> unit_id = ud_id d,
                 content = ud_content d,
                 domain = ud_domain d,
                 source_task_id = ud_source_task_id d,
                 creation_time = t,
                 usage_count = (case ud_usage_count d of None \<Rightarrow> 0 | Some n \<Rightarrow> n),
                 quality_score = (case ud_quality_score d of None \<Rightarrow> 0 | Some q \<Rightarrow> q),
                 tags = (case ud_tags d of None \<Rightarrow> [] | Some ts \<Rightarrow> ts) \<rparr>)"

text \<open>
  The loop of \<^verbatim>\<open>load_knowledge_base\<close>. An exception inside the loop is caught outside of
  it: the units added so far stay, the rest of the file is not read.
\<close>

fun load_units :: "KnowledgeBase \<Rightarrow> unit_data list \<Rightarrow> KnowledgeBase" where
  "load_units kb [] = kb"
| "load_units kb (d # ds) =
     (case data_to_unit d of
        None \<Rightarrow> kb
      | Some unit \<Rightarrow> load_units (add_knowledge_unit kb unit None) ds)"

definition load_knowledge_base :: "KnowledgeBase \<Rightarrow> KnowledgeBase" where
  "load_knowledge_base kb =
     (case kb_file kb of
        NoFile \<Rightarrow> kb
      | UnreadableFile \<Rightarrow> kb
      | SnapshotFile snap \<Rightarrow> load_units kb (snap_units snap))"

text \<open>\<^verbatim>\<open>KnowledgeBase.__init__\<close> on the file found at \<^verbatim>\<open>kb_path\<close>.\<close>

definition KnowledgeBase_init :: "kb_file \<Rightarrow> KnowledgeBase" where
  "KnowledgeBase_init file =
     load_knowledge_base
       \<lparr> knowledge_units = [], domain_index = Map.empty, tag_index = Map.empty,
         kb_file = file \<rparr>"

definition update_knowledge_usage :: "KnowledgeBase \<Rightarrow> string \<Rightarrow> datetime \<Rightarrow> KnowledgeBase" where
  "update_knowledge_usage kb uid now =
     (case map_of (knowledge_units kb) uid of
        None \<Rightarrow> kb
      | Some unit \<Rightarrow>
          save_knowledge_base
            (kb\<lparr> knowledge_units :=
                   AList.update uid (unit\<lparr> usage_count := usage_count unit + 1 \<rparr>)
                     (knowledge_units kb) \<rparr>)
            now)"

text \<open>
  \<^verbatim>\<open>find_relevant_knowledge\<close>. An argument \<open>tags\<close> or \<open>content_keywords\<close> counts as given when
  it is a list that is not empty (\<^verbatim>\<open>if tags:\<close>). Where the candidates found so far are
  empty, the source takes the tag or keyword matches instead of the intersection. The
  units are collected by iterating over the set of candidates, in the order \<open>order\<close>,
  and then sorted by descending quality; the sort is stable, so units of equal quality
  stay in the order of the iteration.
\<close>

definition keyword_match :: "string list \<Rightarrow> KnowledgeUnit \<Rightarrow> bool" where
  "keyword_match content_keywords unit \<longleftrightarrow>
     list_ex (\<lambda>keyword. str_contains (str_lower keyword) (str_lower (content unit)))
       content_keywords"

definition find_relevant_knowledge ::
  "(string list \<Rightarrow> string list) \<Rightarrow> KnowledgeBase \<Rightarrow> string \<Rightarrow> string list option
     \<Rightarrow> string list option \<Rightarrow> KnowledgeUnit list" where
  "find_relevant_knowledge order kb dmn tgs content_keywords =
     (let candidate_ids = py_set (index_get (domain_index kb) dmn);
          candidate_ids =
            (case tgs of
               Some (t # ts) \<Rightarrow>
                 (let tag_ids = py_set (concat (map (index_get (tag_index kb)) (t # ts)))
                  in if candidate_ids \<noteq> [] then set_inter candidate_ids tag_ids else tag_ids)
             | _ \<Rightarrow> candidate_ids);
          candidate_ids =
            (case content_keywords of
               Some (k # ks) \<Rightarrow>
                 (let keyword_ids =
                        py_set (map fst (filter (\<lambda>(uid, unit). keyword_match (k # ks) unit)
                                           (knowledge_units kb)))
                  in if candidate_ids \<noteq> [] then set_inter candidate_ids keyword_ids
                     else keyword_ids)
             | _ \<Rightarrow> candidate_ids);
          relevant_units =
            concat (map (\<lambda>uid. case map_of (knowledge_units kb) uid of
                                  None \<Rightarrow> []
                                | Some unit \<Rightarrow> [unit])
                        (py_iter order candidate_ids))
      in sort_key (\<lambda>unit. - quality_score unit) relevant_units)"

section \<open>Consistency of new knowledge\<close>

definition words_of :: "string \<Rightarrow> string list" where
  "words_of text = py_set (str_split (str_lower text))"

text \<open>
  One round of the inner loop of \<^verbatim>\<open>calculate_knowledge_consistency\<close>. The word sets
  are only intersected, united and counted, never iterated over.
\<close>

definition similarity_step :: "KnowledgeUnit \<Rightarrow> real \<Rightarrow> KnowledgeUnit \<Rightarrow> real" where
  "similarity_step new_unit max_similarity existing_unit =
     (let new_words = words_of (content new_unit);
          existing_words = words_of (content existing_unit)
      in if new_words \<noteq> [] \<and> existing_words \<noteq> []
         then (let intersection = length (set_inter new_words existing_words);
                   union = length (set_union new_words existing_words);
                   similarity = (if union > 0 then real intersection / real union else 0)
               in max max_similarity similarity)
         else max_similarity)"

definition calculate_knowledge_consistency ::
  "(string list \<Rightarrow> string list) \<Rightarrow> KnowledgeBase \<Rightarrow> KnowledgeUnit list \<Rightarrow> string \<Rightarrow> real" where
  "calculate_knowledge_consistency order kb new_units dmn =
     (if new_units = [] then 1
      else (let existing_units = find_relevant_knowledge order kb dmn None None
            in if existing_units = [] then 1
               else (let consistency_scores =
                           map (\<lambda>new_unit. foldl (similarity_step new_unit) 0 (take 10 existing_units))
                               new_units
                     in sum_list consistency_scores / real (length consistency_scores))))"

text \<open>
  The consistency score in the words of the specification: the Jaccard similarity of
  two token sets (taken as \<open>0\<close> when both are empty), the largest similarity of a new
  unit against the compared units, and the mean over the new units.
\<close>

definition tokens :: "string \<Rightarrow> string set" where
  "tokens text = set (str_split (str_lower text))"

definition jaccard :: "string set \<Rightarrow> string set \<Rightarrow> real" where
  "jaccard A B =
     (if A \<union> B = {} then 0 else real (card (A \<inter> B)) / real (card (A \<union> B)))"

definition unit_consistency :: "KnowledgeUnit list \<Rightarrow> KnowledgeUnit \<Rightarrow> real" where
  "unit_consistency compared new_unit =
     Max ((\<lambda>e. jaccard (tokens (content new_unit)) (tokens (content e))) ` set compared)"

definition mean :: "real list \<Rightarrow> real" where
  "mean xs = sum_list xs / real (length xs)"

text \<open>
  Properties of a store state. In \<open>dict_ok\<close> the unit dictionary has no key twice and
  files every unit under its own id, as every dictionary filled by
  \<^const>\<open>add_knowledge_unit\<close> does. \<open>timestamps_ok\<close>: the creation times are datetimes. In
  \<open>index_exact\<close> the ids listed under a domain or tag are exactly the ids of the stored
  units with that domain or tag.
\<close>

definition dict_ok :: "KnowledgeBase \<Rightarrow> bool" where
  "dict_ok kb \<longleftrightarrow>
     distinct (map fst (knowledge_units kb))
     \<and> list_all (\<lambda>(k, unit). unit_id unit = k) (knowledge_units kb)"

definition timestamps_ok :: "KnowledgeBase \<Rightarrow> bool" where
  "timestamps_ok kb \<longleftrightarrow>
     list_all (\<lambda>(k, unit). valid_datetime (creation_time unit)) (knowledge_units kb)"

definition ids_with_domain :: "KnowledgeBase \<Rightarrow> string \<Rightarrow> string set" where
  "ids_with_domain kb d =
     set (map fst (filter (\<lambda>(k, unit). domain unit = d) (knowledge_units kb)))"

definition ids_with_tag :: "KnowledgeBase \<Rightarrow> string \<Rightarrow> string set" where
  "ids_with_tag kb t =
     set (map fst (filter (\<lambda>(k, unit). t \<in> set (tags unit)) (knowledge_units kb)))"

text \<open>The stored units of a domain.\<close>

definition units_of_domain :: "KnowledgeBase \<Rightarrow> string \<Rightarrow> KnowledgeUnit set" where
  "units_of_domain kb d = {unit. (unit_id unit, unit) \<in> set (knowledge_units kb) \<and> domain unit = d}"

definition index_exact :: "KnowledgeBase \<Rightarrow> bool" where
  "index_exact kb \<longleftrightarrow>
     (\<forall>d. set (index_get (domain_index kb) d) = ids_with_domain kb d)
     \<and> (\<forall>t. set (index_get (tag_index kb) t) = ids_with_tag kb t)"

text \<open>
  An optional list argument that the source treats as not given (\<^verbatim>\<open>None\<close> or empty), and
  the ids listed in the tag index under any of some tags.
\<close>

definition not_given :: "string list option \<Rightarrow> bool" where
  "not_given arg \<longleftrightarrow> arg = None \<or> arg = Some []"

definition ids_under_tags :: "KnowledgeBase \<Rightarrow> string list option \<Rightarrow> string set" where
  "ids_under_tags kb tgs =
     (case tgs of
        None \<Rightarrow> {}
      | Some ts \<Rightarrow> set (concat (map (index_get (tag_index kb)) ts)))"

section \<open>Capability sub-scores\<close>







text \<open>The dictionary returned after the \<^verbatim>\<open>try\<close> block: every score \<open>3.0\<close>.\<close>

definition default_scores :: "string list \<Rightarrow> (string \<times> real) list" where
  "default_scores keys = map (\<lambda>k. (k, 3)) keys"






section \<open>Example data\<close>

text \<open>Concrete units and stores, used to evaluate the definitions.\<close>

definition t_morning :: datetime where
  "t_morning = \<lparr> year = 2024, month = 5, day = 17, hour = 9, minute = 30, second = 0,
                 microsecond = 0 \<rparr>"

definition t_noon :: datetime where
  "t_noon = \<lparr> year = 2024, month = 5, day = 17, hour = 12, minute = 0, second = 5,
              microsecond = 250000 \<rparr>"

definition unit_rates :: KnowledgeUnit where
  "unit_rates =
     \<lparr> unit_id = ''t1_0_9f2c41aa'', content = ''Bond prices fall when rates rise'',
       domain = ''finance'', source_task_id = ''t1'', creation_time = t_morning,
       usage_count = 0, quality_score = 0, tags = [''rates'', ''bonds''] \<rparr>"

definition unit_equity :: KnowledgeUnit where
  "unit_equity =
     \<lparr> unit_id = ''t2_0_07d15e3b'', content = ''Equity prices rise when rates fall'',
       domain = ''finance'', source_task_id = ''t2'', creation_time = t_noon,
       usage_count = 2, quality_score = 4, tags = [''equity''] \<rparr>"

text \<open>The unit \<^const>\<open>unit_rates\<close> extracted again, under the same id, with another tag.\<close>

definition unit_rates_retagged :: KnowledgeUnit where
  "unit_rates_retagged = unit_rates\<lparr> tags := [''macro''] \<rparr>"

text \<open>
  The same unit under the same id once more: with another domain, and with another
  usage count and quality only.
\<close>

definition unit_rates_moved :: KnowledgeUnit where
  "unit_rates_moved = unit_rates\<lparr> domain := ''legal'' \<rparr>"

definition unit_rates_rescored :: KnowledgeUnit where
  "unit_rates_rescored = unit_rates\<lparr> usage_count := 3, quality_score := 5 \<rparr>"

definition unit_new :: KnowledgeUnit where
  "unit_new =
     \<lparr> unit_id = ''t3_0_c0ffee00'', content = ''Bond prices rise'',
       domain = ''finance'', source_task_id = ''t3'', creation_time = t_noon,
       usage_count = 0, quality_score = 0, tags = [] \<rparr>"

definition kb_empty :: KnowledgeBase where
  "kb_empty = KnowledgeBase_init NoFile"

definition kb_one :: KnowledgeBase where
  "kb_one = add_knowledge_unit kb_empty unit_rates (Some t_morning)"

definition kb_two :: KnowledgeBase where
  "kb_two = add_knowledge_unit kb_one unit_equity (Some t_noon)"

definition kb_retagged :: KnowledgeBase where
  "kb_retagged = add_knowledge_unit kb_one unit_rates_retagged (Some t_noon)"

definition kb_moved :: KnowledgeBase where
  "kb_moved = add_knowledge_unit kb_one unit_rates_moved (Some t_noon)"

text \<open>An order of iteration: the order of the list that represents the set.\<close>

definition insertion_order :: "string list \<Rightarrow> string list" where
  "insertion_order xs = xs"




section \<open>Automation rate\<close>

lemma max_min_clamp: "max 0 (min 1 x) = clamp x 0 1"
  unfolding clamp_def max_def min_def by auto

lemma clamp_unit_bounds: "0 \<le> clamp x 0 1 \<and> clamp x 0 1 \<le> 1"
  unfolding clamp_def by auto

lemma calculate_automation_rate_clamp:
  "calculate_automation_rate ev c =
     (if expert_time_hours ev \<le> 0 then 1
      else clamp (1 - (c / 3600) / expert_time_hours ev) 0 1)"
  unfolding calculate_automation_rate_def Let_def max_min_clamp by (rule refl)

text \<open>
  Claim C9. Ending a task that was started at \<open>t0\<close> at time \<open>now\<close> succeeds, and the
  automation rate of the returned metrics is \<open>clamp (1 - elapsed_hours / expert_hours) 0 1\<close>
  with \<open>elapsed_hours = (now - t0) / 3600\<close> when the expert baseline is positive, and
  exactly \<open>1\<close> when the baseline is zero or negative; in both cases it lies in \<open>[0, 1]\<close>.
\<close>

theorem automation_rate_clamped:
  assumes "current_task_id ev = Some tid" and "current_task_title ev = Some title"
    and "start_time ev = Some t0"
  shows "\<exists>m ev' r. end_task ev now success = Inr (m, ev') \<and> automation_rate m = Some r
           \<and> r = calculate_automation_rate ev (now - t0)
           \<and> (0 < expert_time_hours ev \<longrightarrow>
                 r = clamp (1 - ((now - t0) / 3600) / expert_time_hours ev) 0 1)
           \<and> (expert_time_hours ev \<le> 0 \<longrightarrow> r = 1)
           \<and> 0 \<le> r \<and> r \<le> 1"
proof -
  let ?r = "calculate_automation_rate ev (now - t0)"
  have bounds: "0 \<le> ?r \<and> ?r \<le> 1"
    unfolding calculate_automation_rate_clamp using clamp_unit_bounds by auto
  have pos: "0 < expert_time_hours ev \<longrightarrow>
               ?r = clamp (1 - ((now - t0) / 3600) / expert_time_hours ev) 0 1"
    by (simp add: calculate_automation_rate_clamp)
  have nonpos: "expert_time_hours ev \<le> 0 \<longrightarrow> ?r = 1"
    by (simp add: calculate_automation_rate_clamp)
  from assms have "\<exists>m ev'. end_task ev now success = Inr (m, ev') \<and> automation_rate m = Some ?r"
    by (simp add: end_task_def Let_def)
  with bounds pos nonpos show ?thesis by blast
qed


theorem automation_rate_clamped_witness:
  "(\<exists>m ev'. end_task ev_in_flight 3700 True = Inr (m, ev') \<and> automation_rate m = Some (1 / 2))
   \<and> (\<exists>m ev'. end_task ev_no_baseline 3700 True = Inr (m, ev') \<and> automation_rate m = Some 1)"
proof -
  have a: "current_task_id ev_in_flight = Some ''task-1''"
    and b: "current_task_title ev_in_flight = Some ''first''"
    and c: "start_time ev_in_flight = Some 100"
    and d: "expert_time_hours ev_in_flight = 2"
    by (simp_all add: ev_in_flight_def)
  have a0: "current_task_id ev_no_baseline = Some ''task-1''"
    and b0: "current_task_title ev_no_baseline = Some ''first''"
    and c0: "start_time ev_no_baseline = Some 100"
    and d0: "expert_time_hours ev_no_baseline = 0"
    by (simp_all add: ev_no_baseline_def ev_in_flight_def)
  have "clamp (1 - ((3700 - 100) / 3600) / 2) 0 1 = 1 / 2"
    by (simp add: clamp_def)
  with automation_rate_clamped [OF a b c, of 3700 True] d
  have first: "\<exists>m ev'. end_task ev_in_flight 3700 True = Inr (m, ev')
                 \<and> automation_rate m = Some (1 / 2)"
    by auto
  from automation_rate_clamped [OF a0 b0 c0, of 3700 True] d0
  have second: "\<exists>m ev'. end_task ev_no_baseline 3700 True = Inr (m, ev')
                  \<and> automation_rate m = Some 1"
    by auto
  from first second show ?thesis by (rule conjI)
qed

section \<open>Starting a task while one is running\<close>

lemma ev_in_flight_reached:
  "py_bind (start_task (EfficiencyEvaluator_init 2 100 0.0015 0.006) 100 ''task-1'' ''first'')
     (\<lambda>ev. Inr (add_error (add_token_usage ev 1300 2600))) = Inr ev_in_flight"
  by (simp add: py_bind_def start_task_def EfficiencyEvaluator_init_def add_error_def
      add_token_usage_def ev_in_flight_def)

text \<open>
  Claim C4 as stated (a second \<^verbatim>\<open>start_task\<close> on a running evaluator fails) does not hold:
  on the running evaluator \<^const>\<open>ev_in_flight\<close>, which holds \<open>1300\<close> input tokens, \<open>2600\<close>
  output tokens and one error of task \<^verbatim>\<open>task-1\<close>, a second start returns normally and
  the counters and the start time of the task in flight are gone.
\<close>

theorem start_while_running_counterexample:
  "running ev_in_flight
   \<and> \<not> isl (start_task ev_in_flight 160 ''task-2'' ''second'')
   \<and> start_task ev_in_flight 160 ''task-2'' ''second'' =
       Inr (ev_in_flight\<lparr> current_task_id := Some ''task-2'',
                          current_task_title := Some ''second'',
                          start_time := Some 160,
                          token_usage_input := 0, token_usage_output := 0,
                          error_count := 0 \<rparr>)"
  by (simp add: running_def ev_in_flight_def start_task_def)

text \<open>
  Claim C4, amended. \<^verbatim>\<open>start_task\<close> never fails, whatever the state of the evaluator,
  running or not: it returns the evaluator with the new task as the current one, the
  start time set to the present, and the token counters and the error counter at
  zero; the expert baseline and the token prices are kept.
\<close>

theorem start_task_always_resets:
  "\<exists>ev'. start_task ev now task_id task_title = Inr ev'
     \<and> current_task_id ev' = Some task_id \<and> current_task_title ev' = Some task_title
     \<and> start_time ev' = Some now
     \<and> token_usage_input ev' = 0 \<and> token_usage_output ev' = 0 \<and> error_count ev' = 0
     \<and> expert_time_hours ev' = expert_time_hours ev
     \<and> expert_hourly_rate_usd ev' = expert_hourly_rate_usd ev
     \<and> token_cost_per_1k_input ev' = token_cost_per_1k_input ev
     \<and> token_cost_per_1k_output ev' = token_cost_per_1k_output ev"
  by (simp add: start_task_def)

section \<open>Quality score\<close>

lemma quality_weights_SomeD:
  assumes "quality_weights config = Some (w_race, w_fact)"
  shows "\<exists>weights. map_of config ''quality_value_weights'' = Some (JObj weights)
           \<and> map_of weights ''race_score'' = Some (JNum w_race)
           \<and> map_of weights ''fact_score'' = Some (JNum w_fact)"
  using assms by (auto simp: quality_weights_def split: option.splits json.splits)

lemma calculate_quality_score_value:
  assumes "quality_weights config = Some (w_race, w_fact)"
  shows "calculate_quality_score config r a c =
           Inr (min 1 (max 0 (r / 5)) * w_race + min 1 (max 0 a) * w_fact)"
proof -
  from quality_weights_SomeD [OF assms]
  obtain weights where "map_of config ''quality_value_weights'' = Some (JObj weights)"
    and "map_of weights ''race_score'' = Some (JNum w_race)"
    and "map_of weights ''fact_score'' = Some (JNum w_fact)"
    by blast
  then show ?thesis
    by (simp add: calculate_quality_score_def subscript_def py_bind_def float_times_def Let_def)
qed

text \<open>
  Claim C10. The count of effective citations has no influence on the quality score:
  the results for any two counts are equal, for every configuration (also one on which
  the computation raises). With numeric sub-weights \<open>w_race\<close> and \<open>w_fact\<close> configured, the score is
  the race score divided by \<open>5\<close> and cut to \<open>[0, 1]\<close>, times \<open>w_race\<close>, plus the citation accuracy
  cut to \<open>[0, 1]\<close>, times \<open>w_fact\<close>.
\<close>

theorem quality_score_ignores_citations:
  "calculate_quality_score config r a c1 = calculate_quality_score config r a c2
   \<and> (\<forall>w_race w_fact. quality_weights config = Some (w_race, w_fact) \<longrightarrow>
         calculate_quality_score config r a c1 =
           Inr (min 1 (max 0 (r / 5)) * w_race + min 1 (max 0 a) * w_fact))"
proof
  show "calculate_quality_score config r a c1 = calculate_quality_score config r a c2"
    by (simp add: calculate_quality_score_def)
  show "\<forall>w_race w_fact. quality_weights config = Some (w_race, w_fact) \<longrightarrow>
          calculate_quality_score config r a c1 =
            Inr (min 1 (max 0 (r / 5)) * w_race + min 1 (max 0 a) * w_fact)"
    using calculate_quality_score_value by blast
qed

lemma quality_weights_default: "quality_weights default_config = Some (7 / 10, 3 / 10)"
  by (simp add: quality_weights_def default_config_def)

theorem quality_score_ignores_citations_witness:
  "quality_weights default_config = Some (7 / 10, 3 / 10)
   \<and> calculate_quality_score default_config 4 (1 / 2) 0 = Inr (71 / 100)
   \<and> calculate_quality_score default_config 4 (1 / 2) 12 = Inr (71 / 100)"
proof -
  have w: "quality_weights default_config = Some (7 / 10, 3 / 10)"
    by (rule quality_weights_default)
  from quality_score_ignores_citations [of default_config 4 "1 / 2" 0 12] w
  have "calculate_quality_score default_config 4 (1 / 2) 0 = calculate_quality_score default_config 4 (1 / 2) 12"
    and "calculate_quality_score default_config 4 (1 / 2) 0 =
           Inr (min 1 (max 0 (4 / 5)) * (7 / 10) + min 1 (max 0 (1 / 2)) * (3 / 10))"
    by blast+
  then show ?thesis using w by simp
qed

section \<open>Composite score\<close>

lemma weight_of_SomeD:
  assumes "weight_of config k = Some r"
  shows "\<exists>weights. map_of config ''poet_weights'' = Some (JObj weights)
           \<and> map_of weights k = Some (JNum r)"
  using assms by (auto simp: weight_of_def split: option.splits json.splits)

lemma poet_weights_SomeD:
  assumes "poet_weights config = Some (we, wq, ws)"
  shows "weight_of config ''efficiency_value'' = Some we"
    and "weight_of config ''quality_value'' = Some wq"
    and "weight_of config ''strategic_value'' = Some ws"
  using assms by (auto simp: poet_weights_def split: option.splits)

lemma calculate_poet_score_value:
  assumes "poet_weights config = Some (we, wq, ws)"
  shows "calculate_poet_score config e q s =
           Inr (e * we + q * wq + s * ws,
                [(''efficiency_value'', e), (''quality_value'', q), (''strategic_value'', s)])"
proof -
  from weight_of_SomeD [OF poet_weights_SomeD(1) [OF assms]]
  obtain weights where w: "map_of config ''poet_weights'' = Some (JObj weights)"
    and e: "map_of weights ''efficiency_value'' = Some (JNum we)"
    by blast
  from weight_of_SomeD [OF poet_weights_SomeD(2) [OF assms]] w
  have q: "map_of weights ''quality_value'' = Some (JNum wq)" by auto
  from weight_of_SomeD [OF poet_weights_SomeD(3) [OF assms]] w
  have s: "map_of weights ''strategic_value'' = Some (JNum ws)" by auto
  show ?thesis
    by (simp add: calculate_poet_score_def subscript_def py_bind_def float_times_def w e q s)
qed

lemma weighted_sum_unit_interval:
  fixes e q s we wq ws :: real
  assumes "we + wq + ws = 1" "0 \<le> we" "0 \<le> wq" "0 \<le> ws"
    and "0 \<le> e" "e \<le> 1" "0 \<le> q" "q \<le> 1" "0 \<le> s" "s \<le> 1"
  shows "0 \<le> e * we + q * wq + s * ws" and "e * we + q * wq + s * ws \<le> 1"
proof -
  have "0 \<le> e * we" "0 \<le> q * wq" "0 \<le> s * ws"
    using assms by simp_all
  then show "0 \<le> e * we + q * wq + s * ws" by linarith
  have "e * we \<le> we" "q * wq \<le> wq" "s * ws \<le> ws"
    using assms by (simp_all add: mult_left_le_one_le)
  with assms(1) show "e * we + q * wq + s * ws \<le> 1" by linarith
qed

lemma load_negative_weights:
  "poet_weights (load_config (ParsedConfig user_config_negative)) = Some (3 / 2, - (1 / 2), 0)"
  by (simp add: load_config_def user_config_negative_def default_config_def poet_weights_def
      weight_of_def)

text \<open>
  Claim C2 as stated does not hold for every configuration whose weights sum to \<open>1\<close>: the
  configuration file \<^const>\<open>user_config_negative\<close> is loaded as it is, its weights \<open>1.5\<close>,
  \<open>-0.5\<close> and \<open>0\<close> sum to \<open>1\<close>, and the dimension scores \<open>(0, 1, 0)\<close>, each in \<open>[0, 1]\<close>, give
  the composite score \<open>-0.5\<close>.
\<close>

theorem poet_score_unit_interval_counterexample:
  "poet_weights (load_config (ParsedConfig user_config_negative)) = Some (3 / 2, - (1 / 2), 0)
   \<and> (3 / 2 + - (1 / 2) + 0 = (1::real))
   \<and> calculate_poet_score (load_config (ParsedConfig user_config_negative)) 0 1 0 =
       Inr (- (1 / 2),
            [(''efficiency_value'', 0), (''quality_value'', 1), (''strategic_value'', 0)])
   \<and> \<not> (0 \<le> (- (1 / 2) :: real))"
  using calculate_poet_score_value [OF load_negative_weights, of 0 1 0] load_negative_weights
  by simp

text \<open>
  Claim C2, amended by the requirement that no weight is negative. For numeric weights
  that sum to \<open>1\<close> and are each at least \<open>0\<close>, and dimension scores in \<open>[0, 1]\<close>, the composite
  score is the weighted sum of the dimension scores and lies in \<open>[0, 1]\<close>; dimension
  scores all \<open>0\<close> give \<open>0\<close> and dimension scores all \<open>1\<close> give \<open>1\<close>. (The weighted-sum equation
  itself needs none of the bounds.)
\<close>

theorem poet_score_weighted_sum:
  assumes "poet_weights config = Some (we, wq, ws)"
    and "we + wq + ws = 1" and "0 \<le> we" and "0 \<le> wq" and "0 \<le> ws"
    and "0 \<le> e" and "e \<le> 1" and "0 \<le> q" and "q \<le> 1" and "0 \<le> s" and "s \<le> 1"
  shows "calculate_poet_score config e q s =
           Inr (e * we + q * wq + s * ws,
                [(''efficiency_value'', e), (''quality_value'', q), (''strategic_value'', s)])
         \<and> 0 \<le> e * we + q * wq + s * ws \<and> e * we + q * wq + s * ws \<le> 1
         \<and> calculate_poet_score config 0 0 0 =
             Inr (0, [(''efficiency_value'', 0), (''quality_value'', 0), (''strategic_value'', 0)])
         \<and> calculate_poet_score config 1 1 1 =
             Inr (1, [(''efficiency_value'', 1), (''quality_value'', 1), (''strategic_value'', 1)])"
proof -
  note v = calculate_poet_score_value [OF assms(1)]
  have zero: "calculate_poet_score config 0 0 0 =
      Inr (0, [(''efficiency_value'', 0), (''quality_value'', 0), (''strategic_value'', 0)])"
    using v [of 0 0 0] by simp
  have one: "calculate_poet_score config 1 1 1 =
      Inr (1, [(''efficiency_value'', 1), (''quality_value'', 1), (''strategic_value'', 1)])"
    using v [of 1 1 1] assms(2) by simp
  from v [of e q s] weighted_sum_unit_interval [OF assms(2-11)] zero one
  show ?thesis by simp
qed

lemma poet_weights_default: "poet_weights default_config = Some (3 / 10, 1 / 2, 1 / 5)"
  by (simp add: poet_weights_def weight_of_def default_config_def)

theorem poet_score_weighted_sum_witness:
  "poet_weights default_config = Some (3 / 10, 1 / 2, 1 / 5)
   \<and> calculate_poet_score default_config (1 / 2) 1 (1 / 4) =
       Inr (7 / 10,
            [(''efficiency_value'', 1 / 2), (''quality_value'', 1), (''strategic_value'', 1 / 4)])
   \<and> calculate_poet_score default_config 0 0 0 =
       Inr (0, [(''efficiency_value'', 0), (''quality_value'', 0), (''strategic_value'', 0)])
   \<and> calculate_poet_score default_config 1 1 1 =
       Inr (1, [(''efficiency_value'', 1), (''quality_value'', 1), (''strategic_value'', 1)])"
proof -
  have "calculate_poet_score default_config (1 / 2) 1 (1 / 4) =
           Inr (1 / 2 * (3 / 10) + 1 * (1 / 2) + 1 / 4 * (1 / 5),
                [(''efficiency_value'', 1 / 2), (''quality_value'', 1), (''strategic_value'', 1 / 4)])
         \<and> 0 \<le> 1 / 2 * (3 / 10) + 1 * (1 / 2) + 1 / 4 * (1 / 5 :: real)
         \<and> 1 / 2 * (3 / 10) + 1 * (1 / 2) + 1 / 4 * (1 / 5 :: real) \<le> 1
         \<and> calculate_poet_score default_config 0 0 0 =
             Inr (0, [(''efficiency_value'', 0), (''quality_value'', 0), (''strategic_value'', 0)])
         \<and> calculate_poet_score default_config 1 1 1 =
             Inr (1, [(''efficiency_value'', 1), (''quality_value'', 1), (''strategic_value'', 1)])"
    by (rule poet_score_weighted_sum [OF poet_weights_default]) simp_all
  then show ?thesis using poet_weights_default by simp
qed

section \<open>Loading the configuration\<close>

lemma deep_update_other:
  "k \<notin> fst ` set upd \<Longrightarrow> map_of (deep_update base upd) k = map_of base k"
proof (induction upd arbitrary: base)
  case Nil
  then show ?case by simp
next
  case (Cons kv rest)
  obtain key v where kv: "kv = (key, v)" by (cases kv)
  from Cons.prems kv have ne: "key \<noteq> k" and notin: "k \<notin> fst ` set rest" by auto
  show ?case
    unfolding kv deep_update.simps
    using ne by (simp add: Cons.IH [OF notin] update_conv' split: option.splits json.splits)
qed

text \<open>
  What \<^verbatim>\<open>_deep_update\<close> leaves under a key of the update: the merge when both sides hold
  dictionaries, the update's value otherwise.
\<close>

lemma deep_update_key:
  assumes "distinct (map fst upd)" and "map_of upd k = Some v"
  shows "map_of (deep_update base upd) k =
           Some (case (map_of base k, v) of
                   (Some (JObj b), JObj u) \<Rightarrow> JObj (deep_update b u)
                 | _ \<Rightarrow> v)"
  using assms
proof (induction upd arbitrary: base)
  case Nil
  then show ?case by simp
next
  case (Cons kv rest)
  obtain key v' where kv: "kv = (key, v')" by (cases kv)
  show ?case
  proof (cases "key = k")
    case True
    with Cons.prems kv have v: "v' = v" and notin: "k \<notin> fst ` set rest" by auto
    show ?thesis
      unfolding kv deep_update.simps True v
      by (simp add: deep_update_other [OF notin] update_conv' split: option.splits json.splits)
  next
    case False
    with Cons.prems kv have d: "distinct (map fst rest)" and m: "map_of rest k = Some v" by auto
    show ?thesis
      unfolding kv deep_update.simps
      using False by (simp add: Cons.IH [OF d m] update_conv' split: option.splits json.splits)
  qed
qed

lemma load_config_user_weights:
  assumes "wf_dict u" and "map_of u ''poet_weights'' = Some (JObj uw)" and "wf_dict uw"
    and "map_of uw ''efficiency_value'' = Some (JNum a)"
    and "map_of uw ''quality_value'' = Some (JNum b)"
    and "map_of uw ''strategic_value'' = Some (JNum c)"
  shows "poet_weights (load_config (ParsedConfig (JObj u))) = Some (a, b, c)"
proof -
  let ?dw = "[(''efficiency_value'', JNum 0.30), (''quality_value'', JNum 0.50),
              (''strategic_value'', JNum 0.20)]"
  have base: "map_of default_config ''poet_weights'' = Some (JObj ?dw)"
    by (simp add: default_config_def)
  have top: "map_of (deep_update default_config u) ''poet_weights'' = Some (JObj (deep_update ?dw uw))"
    using deep_update_key [OF assms(1) [unfolded wf_dict_def] assms(2), of default_config]
    by (simp add: base)
  have "map_of (deep_update ?dw uw) ''efficiency_value'' = Some (JNum a)"
    using deep_update_key [OF assms(3) [unfolded wf_dict_def] assms(4), of ?dw] by simp
  moreover have "map_of (deep_update ?dw uw) ''quality_value'' = Some (JNum b)"
    using deep_update_key [OF assms(3) [unfolded wf_dict_def] assms(5), of ?dw] by simp
  moreover have "map_of (deep_update ?dw uw) ''strategic_value'' = Some (JNum c)"
    using deep_update_key [OF assms(3) [unfolded wf_dict_def] assms(6), of ?dw] by simp
  ultimately show ?thesis
    by (simp add: load_config_def poet_weights_def weight_of_def top)
qed

lemma POETBenchmark_init_with_key:
  assumes "api_key \<noteq> []"
    and "map_of (load_config src) ''knowledge_base_path'' = Some (JStr path)"
  shows "POETBenchmark_init src api_key = Inr (load_config src)"
  using assms
  by (simp add: POETBenchmark_init_def AIClient_init_def py_bind_def dict_get_def kb_path_of_def)

lemma default_kb_path:
  "map_of default_config ''knowledge_base_path'' = Some (JStr ''poet_knowledge_base.json'')"
  by (simp add: default_config_def)

lemma load_config_kb_path:
  assumes "map_of u ''knowledge_base_path'' = None"
  shows "map_of (load_config (ParsedConfig (JObj u))) ''knowledge_base_path'' =
           Some (JStr ''poet_knowledge_base.json'')"
proof -
  from assms have "''knowledge_base_path'' \<notin> fst ` set u"
    by (simp add: map_of_eq_None_iff)
  from deep_update_other [OF this] default_kb_path show ?thesis
    by (simp add: load_config_def)
qed

lemma load_config_kb_path_string:
  assumes "wf_dict u"
    and "map_of u ''knowledge_base_path'' = None
         \<or> (\<exists>path. map_of u ''knowledge_base_path'' = Some (JStr path))"
  shows "\<exists>path. map_of (load_config (ParsedConfig (JObj u))) ''knowledge_base_path'' =
           Some (JStr path)"
proof (cases "map_of u ''knowledge_base_path''")
  case None
  from load_config_kb_path [OF this] show ?thesis by blast
next
  case (Some v)
  with assms(2) obtain path where v: "v = JStr path" by auto
  from deep_update_key [OF assms(1) [unfolded wf_dict_def] Some, of default_config]
  show ?thesis
    by (simp add: load_config_def default_kb_path v)
qed

lemma load_weights_09:
  "poet_weights (load_config (ParsedConfig user_config_09)) = Some (3 / 10, 2 / 5, 1 / 5)"
  by (simp add: load_config_def user_config_09_def default_config_def poet_weights_def
      weight_of_def)

text \<open>
  Claim C1 as stated does not hold: constructing the benchmark from the configuration
  file \<^const>\<open>user_config_09\<close>, whose weights \<open>0.3\<close>, \<open>0.4\<close> and \<open>0.2\<close> sum to \<open>0.9\<close>, does not
  fail; the constructed configuration carries exactly these weights.
\<close>

theorem weights_validation_counterexample:
  "\<not> isl (POETBenchmark_init (ParsedConfig user_config_09) ''key'')
   \<and> POETBenchmark_init (ParsedConfig user_config_09) ''key'' =
       Inr (load_config (ParsedConfig user_config_09))
   \<and> poet_weights (load_config (ParsedConfig user_config_09)) = Some (3 / 10, 2 / 5, 1 / 5)
   \<and> (3 / 10 + 2 / 5 + 1 / 5 = (9 / 10 :: real))"
proof -
  have "map_of (load_config (ParsedConfig user_config_09)) ''knowledge_base_path'' =
          Some (JStr ''poet_knowledge_base.json'')"
    unfolding user_config_09_def by (rule load_config_kb_path) simp
  then have "POETBenchmark_init (ParsedConfig user_config_09) ''key'' =
          Inr (load_config (ParsedConfig user_config_09))"
    by (intro POETBenchmark_init_with_key) simp_all
  with load_weights_09 show ?thesis by simp
qed

text \<open>
  Claim C1, amended. Construction does not look at the weights. With an API key in the
  environment, construction from a configuration file that gives three numeric
  weights under \<^verbatim>\<open>poet_weights\<close> (and whose path of the knowledge base, if it gives
  one, is a string) succeeds whatever the weights are, and the weights are taken over
  exactly as written: they are neither renormalised nor rejected. Without a readable
  configuration file construction succeeds with the built-in weights \<open>0.30\<close>, \<open>0.50\<close>
  and \<open>0.20\<close>, which sum to \<open>1\<close>.
\<close>

theorem construction_takes_weights_unvalidated:
  assumes "api_key \<noteq> []"
    and "wf_dict u" and "map_of u ''poet_weights'' = Some (JObj uw)" and "wf_dict uw"
    and "map_of uw ''efficiency_value'' = Some (JNum a)"
    and "map_of uw ''quality_value'' = Some (JNum b)"
    and "map_of uw ''strategic_value'' = Some (JNum c)"
    and "map_of u ''knowledge_base_path'' = None
         \<or> (\<exists>path. map_of u ''knowledge_base_path'' = Some (JStr path))"
  shows "POETBenchmark_init (ParsedConfig (JObj u)) api_key =
           Inr (load_config (ParsedConfig (JObj u)))
         \<and> poet_weights (load_config (ParsedConfig (JObj u))) = Some (a, b, c)
         \<and> POETBenchmark_init NoConfigFile api_key = Inr default_config
         \<and> POETBenchmark_init UnreadableConfig api_key = Inr default_config
         \<and> poet_weights default_config = Some (3 / 10, 1 / 2, 1 / 5)
         \<and> (3 / 10 + 1 / 2 + 1 / 5 = (1::real))"
proof -
  have d: "load_config NoConfigFile = default_config"
    "load_config UnreadableConfig = default_config"
    by (simp_all add: load_config_def)
  from load_config_kb_path_string [OF assms(2) assms(8)]
  obtain path where "map_of (load_config (ParsedConfig (JObj u))) ''knowledge_base_path'' =
      Some (JStr path)"
    by blast
  with assms(1) have "POETBenchmark_init (ParsedConfig (JObj u)) api_key =
          Inr (load_config (ParsedConfig (JObj u)))"
    by (rule POETBenchmark_init_with_key)
  moreover have "POETBenchmark_init NoConfigFile api_key = Inr default_config"
    using POETBenchmark_init_with_key [OF assms(1), of NoConfigFile] default_kb_path
    by (simp add: d)
  moreover have "POETBenchmark_init UnreadableConfig api_key = Inr default_config"
    using POETBenchmark_init_with_key [OF assms(1), of UnreadableConfig] default_kb_path
    by (simp add: d)
  ultimately show ?thesis
    using load_config_user_weights [OF assms(2-7)] poet_weights_default by simp
qed

theorem construction_takes_weights_unvalidated_witness:
  "POETBenchmark_init (ParsedConfig user_config_09) ''key'' =
     Inr (load_config (ParsedConfig user_config_09))
   \<and> poet_weights (load_config (ParsedConfig user_config_09)) = Some (3 / 10, 2 / 5, 1 / 5)
   \<and> POETBenchmark_init NoConfigFile ''key'' = Inr default_config
   \<and> poet_weights default_config = Some (3 / 10, 1 / 2, 1 / 5)"
proof -
  let ?uw = "[(''efficiency_value'', JNum 0.3), (''quality_value'', JNum 0.4),
              (''strategic_value'', JNum 0.2)]"
  let ?u = "[(''poet_weights'', JObj ?uw)]"
  have k: "''key'' \<noteq> []" by simp
  have u: "wf_dict ?u" and uw: "wf_dict ?uw" by (simp_all add: wf_dict_def)
  have m: "map_of ?u ''poet_weights'' = Some (JObj ?uw)" by simp
  have e: "map_of ?uw ''efficiency_value'' = Some (JNum (3 / 10))"
    and q: "map_of ?uw ''quality_value'' = Some (JNum (2 / 5))"
    and s: "map_of ?uw ''strategic_value'' = Some (JNum (1 / 5))"
    by simp_all
  have p: "map_of ?u ''knowledge_base_path'' = None
           \<or> (\<exists>path. map_of ?u ''knowledge_base_path'' = Some (JStr path))"
    by simp
  from construction_takes_weights_unvalidated [OF k u m uw e q s p]
  show ?thesis by (simp add: user_config_09_def)
qed

section \<open>Timestamps survive the snapshot\<close>

lemma ten_cases:
  "(k::nat) < 10 \<Longrightarrow>
     k = 0 \<or> k = 1 \<or> k = 2 \<or> k = 3 \<or> k = 4 \<or> k = 5 \<or> k = 6 \<or> k = 7 \<or> k = 8 \<or> k = 9"
  by auto

lemma digit_char_props: "is_digit (digit_char d) \<and> digit_val (digit_char d) = d mod 10"
proof -
  have "d mod 10 < 10" by simp
  from ten_cases [OF this] show ?thesis
    by (elim disjE) (simp_all add: digit_char_def is_digit_def digit_val_def)
qed

lemma step10: "(n::nat) div k mod 10 * k + n mod k = n mod (k * 10)"
  by (simp add: mod_mult2_eq)

lemma digits_pad2: "digits_val (pad2 n) = Some (n mod 100)"
proof -
  have "n div 10 mod 10 * 10 + n mod 10 = n mod 100"
    using step10 [of n 10] by simp
  then show ?thesis by (simp add: pad2_def digit_char_props)
qed

lemma digits_pad4: "digits_val (pad4 n) = Some (n mod 10000)"
proof -
  have "n div 10 mod 10 * 10 + n mod 10 = n mod 100"
    using step10 [of n 10] by simp
  moreover have "n div 100 mod 10 * 100 + n mod 100 = n mod 1000"
    using step10 [of n 100] by simp
  moreover have "n div 1000 mod 10 * 1000 + n mod 1000 = n mod 10000"
    using step10 [of n 1000] by simp
  ultimately have "n div 1000 mod 10 * 1000 +
      (n div 100 mod 10 * 100 + (n div 10 mod 10 * 10 + n mod 10)) = n mod 10000"
    by linarith
  then show ?thesis by (simp add: pad4_def digit_char_props)
qed

lemma digits_pad6: "digits_val (pad6 n) = Some (n mod 1000000)"
proof -
  have "n div 10 mod 10 * 10 + n mod 10 = n mod 100"
    using step10 [of n 10] by simp
  moreover have "n div 100 mod 10 * 100 + n mod 100 = n mod 1000"
    using step10 [of n 100] by simp
  moreover have "n div 1000 mod 10 * 1000 + n mod 1000 = n mod 10000"
    using step10 [of n 1000] by simp
  moreover have "n div 10000 mod 10 * 10000 + n mod 10000 = n mod 100000"
    using step10 [of n 10000] by simp
  moreover have "n div 100000 mod 10 * 100000 + n mod 100000 = n mod 1000000"
    using step10 [of n 100000] by simp
  ultimately have "n div 100000 mod 10 * 100000 + (n div 10000 mod 10 * 10000 +
      (n div 1000 mod 10 * 1000 +
      (n div 100 mod 10 * 100 + (n div 10 mod 10 * 10 + n mod 10)))) = n mod 1000000"
    by linarith
  then show ?thesis by (simp add: pad6_def digit_char_props)
qed

lemma make_datetime_fields:
  assumes "valid_datetime t"
  shows "make_datetime (Some (year t)) (Some (month t)) (Some (day t)) (Some (hour t))
           (Some (minute t)) (Some (second t)) (Some (microsecond t)) = Some t"
proof -
  have eq: "\<lparr> year = year t, month = month t, day = day t, hour = hour t, minute = minute t,
          second = second t, microsecond = microsecond t \<rparr> = t"
    by (cases t) simp
  show ?thesis
    unfolding make_datetime_def prod.case option.case Let_def eq using assms by simp
qed

lemma fromisoformat_isoformat:
  assumes "valid_datetime t"
  shows "fromisoformat (isoformat t) = Some t"
proof -
  from assms have "year t < 10000" and "month t < 100" and "day t < 100"
    and "hour t < 100" and "minute t < 100" and "second t < 100"
    and "microsecond t < 1000000"
    by (auto simp: valid_datetime_def days_in_month_def split: if_splits)
  then have dv: "digits_val (pad4 (year t)) = Some (year t)"
    "digits_val (pad2 (month t)) = Some (month t)"
    "digits_val (pad2 (day t)) = Some (day t)"
    "digits_val (pad2 (hour t)) = Some (hour t)"
    "digits_val (pad2 (minute t)) = Some (minute t)"
    "digits_val (pad2 (second t)) = Some (second t)"
    "digits_val (pad6 (microsecond t)) = Some (microsecond t)"
    by (simp_all add: digits_pad2 digits_pad4 digits_pad6)
  note dv' = dv [unfolded pad2_def pad4_def pad6_def]
  show ?thesis
  proof (cases "microsecond t = 0")
    case True
    have "fromisoformat (isoformat t) =
            make_datetime (Some (year t)) (Some (month t)) (Some (day t)) (Some (hour t))
              (Some (minute t)) (Some (second t)) (Some 0)"
      unfolding isoformat_def pad2_def pad4_def
      using True by (simp add: dv' del: digits_val.simps)
    also have "\<dots> = Some t"
      using make_datetime_fields [OF assms] True by simp
    finally show ?thesis .
  next
    case False
    have "fromisoformat (isoformat t) =
            make_datetime (Some (year t)) (Some (month t)) (Some (day t)) (Some (hour t))
              (Some (minute t)) (Some (second t)) (Some (microsecond t))"
      unfolding isoformat_def pad2_def pad4_def pad6_def
      using False by (simp add: dv' del: digits_val.simps)
    then show ?thesis
      using make_datetime_fields [OF assms] by simp
  qed
qed

section \<open>Adding units\<close>

lemma index_get_append:
  "index_get (index_append idx k v) k' =
     (if k' = k then index_get idx k @ [v] else index_get idx k')"
  by (simp add: index_append_def index_get_def)

lemma index_get_empty [simp]: "index_get Map.empty k = []"
  by (simp add: index_get_def)

lemma index_get_foldl_append:
  "set (index_get (foldl (\<lambda>idx tag. index_append idx tag v) idx ts) t) =
     set (index_get idx t) \<union> (if t \<in> set ts then {v} else {})"
  by (induction ts arbitrary: idx) (auto simp: index_get_append)

lemma add_knowledge_units [simp]:
  "knowledge_units (add_knowledge_unit kb unit save) =
     AList.update (unit_id unit) unit (knowledge_units kb)"
  by (simp add: add_knowledge_unit_def save_knowledge_base_def Let_def split: option.splits)

lemma add_domain_index:
  "set (index_get (domain_index (add_knowledge_unit kb unit save)) d) =
     set (index_get (domain_index kb) d) \<union> (if d = domain unit then {unit_id unit} else {})"
  by (simp add: add_knowledge_unit_def save_knowledge_base_def Let_def index_get_append
      split: option.splits)

lemma add_tag_index:
  "set (index_get (tag_index (add_knowledge_unit kb unit save)) t) =
     set (index_get (tag_index kb) t) \<union> (if t \<in> set (tags unit) then {unit_id unit} else {})"
  by (simp add: add_knowledge_unit_def save_knowledge_base_def Let_def index_get_foldl_append
      split: option.splits)

lemma length_update:
  "length (AList.update k v al) = (if k \<in> fst ` set al then length al else Suc (length al))"
  by (induction al) auto

lemma length_update_twice:
  "length (AList.update k v' (AList.update k v al)) = length (AList.update k v al)"
  by (simp add: length_update dom_update)

lemma update_keys_present:
  "k \<in> fst ` set al \<Longrightarrow> map fst (AList.update k v al) = map fst al"
  by (induction al) auto

section \<open>Store invariants\<close>

lemma update_fresh:
  "k \<notin> fst ` set al \<Longrightarrow> AList.update k v al = al @ [(k, v)]"
  by (induction al) auto

lemma list_all_update:
  "list_all P al \<Longrightarrow> P (k, v) \<Longrightarrow> list_all P (AList.update k v al)"
  by (induction al) auto

lemma dict_ok_add:
  assumes "dict_ok kb"
  shows "dict_ok (add_knowledge_unit kb unit save)"
  using assms by (simp add: dict_ok_def distinct_update list_all_update)

lemma timestamps_ok_add:
  assumes "timestamps_ok kb" and "valid_datetime (creation_time unit)"
  shows "timestamps_ok (add_knowledge_unit kb unit save)"
  using assms by (simp add: timestamps_ok_def list_all_update)

lemma ids_with_domain_add_fresh:
  assumes "unit_id unit \<notin> fst ` set (knowledge_units kb)"
  shows "ids_with_domain (add_knowledge_unit kb unit save) d =
           ids_with_domain kb d \<union> (if d = domain unit then {unit_id unit} else {})"
  using assms by (auto simp: ids_with_domain_def update_fresh)

lemma ids_with_tag_add_fresh:
  assumes "unit_id unit \<notin> fst ` set (knowledge_units kb)"
  shows "ids_with_tag (add_knowledge_unit kb unit save) t =
           ids_with_tag kb t \<union> (if t \<in> set (tags unit) then {unit_id unit} else {})"
  using assms by (auto simp: ids_with_tag_def update_fresh)

lemma index_exact_add_fresh:
  assumes "index_exact kb" and "unit_id unit \<notin> fst ` set (knowledge_units kb)"
  shows "index_exact (add_knowledge_unit kb unit save)"
  using assms(1)
  by (simp add: index_exact_def add_domain_index add_tag_index
      ids_with_domain_add_fresh [OF assms(2)] ids_with_tag_add_fresh [OF assms(2)])

lemma kb_empty_unfold:
  "kb_empty = \<lparr> knowledge_units = [], domain_index = Map.empty, tag_index = Map.empty,
                 kb_file = NoFile \<rparr>"
  by (simp add: kb_empty_def KnowledgeBase_init_def load_knowledge_base_def)

lemma kb_empty_ok: "dict_ok kb_empty" "index_exact kb_empty" "timestamps_ok kb_empty"
  by (simp_all add: kb_empty_unfold dict_ok_def index_exact_def timestamps_ok_def
      ids_with_domain_def ids_with_tag_def index_get_def)

text \<open>Under the invariants, the ids listed under a domain belong to units of that domain.\<close>

lemma indexed_unit_domain:
  assumes "dict_ok kb" and "index_exact kb"
    and "uid \<in> set (index_get (domain_index kb) d)"
    and "map_of (knowledge_units kb) uid = Some u"
  shows "domain u = d \<and> unit_id u = uid \<and> (uid, u) \<in> set (knowledge_units kb)"
proof -
  from assms(2,3) have "uid \<in> ids_with_domain kb d"
    by (simp add: index_exact_def)
  then obtain u' where in': "(uid, u') \<in> set (knowledge_units kb)" and d: "domain u' = d"
    by (auto simp: ids_with_domain_def)
  from assms(1) have dist: "distinct (map fst (knowledge_units kb))"
    by (simp add: dict_ok_def)
  from map_of_is_SomeI [OF dist in'] assms(4) have "u' = u" by simp
  moreover from assms(1) in' have "unit_id u' = uid"
    by (auto simp: dict_ok_def list_all_iff)
  ultimately show ?thesis using in' d by simp
qed

lemma kb_one_ok: "dict_ok kb_one" "index_exact kb_one"
  using kb_empty_ok
  by (simp_all add: kb_one_def dict_ok_add index_exact_add_fresh kb_empty_unfold)

lemma kb_one_units: "knowledge_units kb_one = [(''t1_0_9f2c41aa'', unit_rates)]"
  by (simp add: kb_one_def kb_empty_unfold unit_rates_def)

lemma kb_two_ok: "dict_ok kb_two" "index_exact kb_two"
proof -
  have "unit_id unit_equity \<notin> fst ` set (knowledge_units kb_one)"
    by (simp add: kb_one_units unit_equity_def)
  with kb_one_ok show "dict_ok kb_two" "index_exact kb_two"
    by (simp_all add: kb_two_def dict_ok_add index_exact_add_fresh)
qed

section \<open>Adding under an id that is present\<close>

lemma kb_one_tag_macro: "set (index_get (tag_index kb_one) ''macro'') = {}"
  by (simp add: kb_one_def add_tag_index kb_empty_unfold unit_rates_def)

lemma kb_retagged_tag_macro:
  "set (index_get (tag_index kb_retagged) ''macro'') = {''t1_0_9f2c41aa''}"
  by (simp add: kb_retagged_def kb_one_def add_tag_index kb_empty_unfold unit_rates_def
      unit_rates_retagged_def)

text \<open>
  Claim C5 as stated does not hold. The unit \<^const>\<open>unit_rates_retagged\<close> has the id of
  \<^const>\<open>unit_rates\<close> and the tag \<^verbatim>\<open>macro\<close>. Adding it to the store \<^const>\<open>kb_one\<close>, to which
  \<^const>\<open>unit_rates\<close> was added before, leaves one unit in the dictionary, but the id is now
  listed under the tag \<^verbatim>\<open>macro\<close>, under which nothing was listed before the second add.
\<close>

theorem add_same_id_index_counterexample:
  "unit_id unit_rates_retagged = unit_id unit_rates
   \<and> kb_one = add_knowledge_unit kb_empty unit_rates (Some t_morning)
   \<and> kb_retagged = add_knowledge_unit kb_one unit_rates_retagged (Some t_noon)
   \<and> length (knowledge_units kb_one) = 1
   \<and> length (knowledge_units kb_retagged) = 1
   \<and> set (index_get (tag_index kb_one) ''macro'') = {}
   \<and> set (index_get (tag_index kb_retagged) ''macro'') = {''t1_0_9f2c41aa''}"
proof -
  have "unit_id unit_rates_retagged = unit_id unit_rates"
    by (simp add: unit_rates_retagged_def)
  moreover have "kb_one = add_knowledge_unit kb_empty unit_rates (Some t_morning)"
    by (rule kb_one_def)
  moreover have "kb_retagged = add_knowledge_unit kb_one unit_rates_retagged (Some t_noon)"
    by (rule kb_retagged_def)
  moreover have "length (knowledge_units kb_one) = 1"
    by (simp add: kb_one_units)
  moreover have "length (knowledge_units kb_retagged) = 1"
    by (simp add: kb_retagged_def kb_one_units unit_rates_retagged_def unit_rates_def)
  ultimately show ?thesis
    using kb_one_tag_macro kb_retagged_tag_macro by blast
qed

text \<open>
  Claim C5, amended. Adding a second unit under the id of a unit that was just added,
  whatever the store was before and whether or not either add saves: the unit
  dictionary keeps its size and its keys, and holds the second unit under the id (the
  entry is overwritten). The indexes keep all their entries and gain the id under the
  domain and under every tag of the second unit. The sets of ids under every domain
  and every tag are therefore unchanged when the second unit has the domain of the
  first and no tag that the first lacks, in particular when the same unit is added
  again.
\<close>

theorem add_same_id_twice:
  assumes "unit_id unit' = unit_id unit"
  shows "length (knowledge_units (add_knowledge_unit (add_knowledge_unit kb unit s1) unit' s2)) =
           length (knowledge_units (add_knowledge_unit kb unit s1))
    \<and> map fst (knowledge_units (add_knowledge_unit (add_knowledge_unit kb unit s1) unit' s2)) =
        map fst (knowledge_units (add_knowledge_unit kb unit s1))
    \<and> map_of (knowledge_units (add_knowledge_unit (add_knowledge_unit kb unit s1) unit' s2))
          (unit_id unit) = Some unit'
    \<and> (\<forall>d. set (index_get (domain_index
                 (add_knowledge_unit (add_knowledge_unit kb unit s1) unit' s2)) d) =
             set (index_get (domain_index (add_knowledge_unit kb unit s1)) d)
               \<union> (if d = domain unit' then {unit_id unit} else {}))
    \<and> (\<forall>t. set (index_get (tag_index
                 (add_knowledge_unit (add_knowledge_unit kb unit s1) unit' s2)) t) =
             set (index_get (tag_index (add_knowledge_unit kb unit s1)) t)
               \<union> (if t \<in> set (tags unit') then {unit_id unit} else {}))
    \<and> (domain unit' = domain unit \<and> set (tags unit') \<subseteq> set (tags unit) \<longrightarrow>
          (\<forall>d. set (index_get (domain_index
                   (add_knowledge_unit (add_knowledge_unit kb unit s1) unit' s2)) d) =
               set (index_get (domain_index (add_knowledge_unit kb unit s1)) d))
          \<and> (\<forall>t. set (index_get (tag_index
                     (add_knowledge_unit (add_knowledge_unit kb unit s1) unit' s2)) t) =
                 set (index_get (tag_index (add_knowledge_unit kb unit s1)) t)))"
proof -
  let ?kb1 = "add_knowledge_unit kb unit s1"
  let ?kb2 = "add_knowledge_unit ?kb1 unit' s2"
  have present: "unit_id unit \<in> fst ` set (knowledge_units ?kb1)"
    by (simp add: dom_update)
  have keys: "map fst (knowledge_units ?kb2) = map fst (knowledge_units ?kb1)"
    using update_keys_present [OF present, of unit'] assms by simp
  then have len: "length (knowledge_units ?kb2) = length (knowledge_units ?kb1)"
    by (metis length_map)
  have look: "map_of (knowledge_units ?kb2) (unit_id unit) = Some unit'"
    using assms by (simp add: update_conv')
  have dom: "set (index_get (domain_index ?kb2) d) =
               set (index_get (domain_index ?kb1) d)
                 \<union> (if d = domain unit' then {unit_id unit} else {})" for d
    using assms by (simp add: add_domain_index [of ?kb1])
  have tag: "set (index_get (tag_index ?kb2) t) =
               set (index_get (tag_index ?kb1) t)
                 \<union> (if t \<in> set (tags unit') then {unit_id unit} else {})" for t
    using assms by (simp add: add_tag_index [of ?kb1])
  have same: "(\<forall>d. set (index_get (domain_index ?kb2) d) = set (index_get (domain_index ?kb1) d))
          \<and> (\<forall>t. set (index_get (tag_index ?kb2) t) = set (index_get (tag_index ?kb1) t))"
    if "domain unit' = domain unit \<and> set (tags unit') \<subseteq> set (tags unit)"
    using that unfolding dom tag by (auto simp: add_domain_index add_tag_index)
  from len keys look dom tag same show ?thesis by blast
qed

theorem add_same_id_twice_witness:
  "unit_id unit_rates_rescored = unit_id unit_rates
   \<and> domain unit_rates_rescored = domain unit_rates
   \<and> set (tags unit_rates_rescored) \<subseteq> set (tags unit_rates)
   \<and> length (knowledge_units (add_knowledge_unit kb_one unit_rates_rescored None)) =
       length (knowledge_units kb_one)
   \<and> map_of (knowledge_units (add_knowledge_unit kb_one unit_rates_rescored None))
         (unit_id unit_rates) = Some unit_rates_rescored
   \<and> set (index_get (domain_index (add_knowledge_unit kb_one unit_rates_rescored None))
            ''finance'') = set (index_get (domain_index kb_one) ''finance'')
   \<and> set (index_get (tag_index (add_knowledge_unit kb_one unit_rates_rescored None))
            ''rates'') = set (index_get (tag_index kb_one) ''rates'')"
proof -
  have i: "unit_id unit_rates_rescored = unit_id unit_rates"
    and d: "domain unit_rates_rescored = domain unit_rates"
    and t: "set (tags unit_rates_rescored) \<subseteq> set (tags unit_rates)"
    by (simp_all add: unit_rates_rescored_def)
  note w = add_same_id_twice [OF i, of kb_empty "Some t_morning" None,
      folded kb_one_def]
  from w have "length (knowledge_units (add_knowledge_unit kb_one unit_rates_rescored None)) =
       length (knowledge_units kb_one)"
    and "map_of (knowledge_units (add_knowledge_unit kb_one unit_rates_rescored None))
         (unit_id unit_rates) = Some unit_rates_rescored"
    by blast+
  moreover from w d t
  have "\<forall>d. set (index_get (domain_index (add_knowledge_unit kb_one unit_rates_rescored None)) d) =
          set (index_get (domain_index kb_one) d)"
    and "\<forall>t. set (index_get (tag_index (add_knowledge_unit kb_one unit_rates_rescored None)) t) =
          set (index_get (tag_index kb_one) t)"
    by blast+
  ultimately show ?thesis using i d t by blast
qed

section \<open>Finding relevant knowledge\<close>

lemma py_set_props [simp]: "distinct (py_set xs)" "set (py_set xs) = set xs"
  by (simp_all add: py_set_def)

text \<open>Whatever order is proposed, the iteration visits every element once.\<close>

lemma py_iter_props [simp]:
  "distinct (py_iter order xs)" "set (py_iter order xs) = set xs"
  by (simp_all add: py_iter_def Let_def)

lemma py_iter_Nil [simp]: "py_iter order [] = []"
  by (simp add: py_iter_def Let_def)

lemma py_iter_insertion_order [simp]:
  "distinct xs \<Longrightarrow> py_iter insertion_order xs = xs"
  by (simp add: py_iter_def insertion_order_def)

lemma not_given_cases:
  obtains "arg = None" | "arg = Some []" | x xs where "arg = Some (x # xs)"
  by (cases arg; cases "the arg") auto

lemma lookup_units_set:
  "set (concat (map (\<lambda>uid. case map_of al uid of None \<Rightarrow> [] | Some unit \<Rightarrow> [unit]) ids)) =
     {u. \<exists>uid \<in> set ids. map_of al uid = Some u}"
  by (auto split: option.splits)

text \<open>The ids the units are collected from, by cases on the two optional arguments.\<close>

lemma find_relevant_plain:
  assumes "not_given tgs" and "not_given kws"
  shows "find_relevant_knowledge order kb d tgs kws =
           sort_key (\<lambda>unit. - quality_score unit)
             (concat (map (\<lambda>uid. case map_of (knowledge_units kb) uid of
                                    None \<Rightarrow> [] | Some unit \<Rightarrow> [unit])
                          (py_iter order (py_set (index_get (domain_index kb) d)))))"
  using assms by (auto simp: find_relevant_knowledge_def not_given_def)

lemma find_relevant_stored:
  assumes "u \<in> set (find_relevant_knowledge order kb d tgs kws)"
  shows "\<exists>uid. map_of (knowledge_units kb) uid = Some u"
  using assms
  by (auto simp: find_relevant_knowledge_def Let_def lookup_units_set
      split: option.splits list.splits if_splits)

lemma find_relevant_indexed:
  assumes "u \<in> set (find_relevant_knowledge order kb d tgs kws)"
    and "(not_given tgs \<and> not_given kws)
         \<or> (index_get (domain_index kb) d \<noteq> []
             \<and> (not_given tgs \<or> not_given kws
                 \<or> set (index_get (domain_index kb) d) \<inter> ids_under_tags kb tgs \<noteq> {}))"
  shows "\<exists>uid \<in> set (index_get (domain_index kb) d). map_of (knowledge_units kb) uid = Some u"
proof -
  let ?D = "py_set (index_get (domain_index kb) d)"
  have D: "set ?D = set (index_get (domain_index kb) d)" by (simp add: py_set_def)
  show ?thesis
  proof (cases tgs rule: not_given_cases)
    case 1
    with assms show ?thesis
      by (cases kws rule: not_given_cases)
         (auto simp: find_relevant_knowledge_def Let_def lookup_units_set not_given_def
            py_set_def set_inter_def split: if_splits)
  next
    case 2
    with assms show ?thesis
      by (cases kws rule: not_given_cases)
         (auto simp: find_relevant_knowledge_def Let_def lookup_units_set not_given_def
            py_set_def set_inter_def split: if_splits)
  next
    case (3 x xs)
    with assms show ?thesis
      by (cases kws rule: not_given_cases)
         (auto simp: find_relevant_knowledge_def Let_def lookup_units_set not_given_def
            py_set_def set_inter_def ids_under_tags_def filter_empty_conv split: if_splits)
  qed
qed

lemma find_relevant_none_indexed:
  assumes "index_get (domain_index kb) d = []" and "not_given tgs" and "not_given kws"
  shows "find_relevant_knowledge order kb d tgs kws = []"
  using assms by (simp add: find_relevant_plain py_set_def)

lemma find_relevant_empty_store:
  assumes "knowledge_units kb = []"
  shows "find_relevant_knowledge order kb d tgs kws = []"
proof (cases "find_relevant_knowledge order kb d tgs kws")
  case Nil
  then show ?thesis .
next
  case (Cons u us)
  then have "u \<in> set (find_relevant_knowledge order kb d tgs kws)" by simp
  from find_relevant_stored [OF this] assms show ?thesis by simp
qed


text \<open>
  Claim C3 as stated does not hold. The store \<^const>\<open>kb_one\<close> holds one unit, of domain
  \<^verbatim>\<open>finance\<close> with the tag \<^verbatim>\<open>rates\<close>, and has nothing indexed under the domain \<^verbatim>\<open>legal\<close>;
  the query for domain \<^verbatim>\<open>legal\<close> with the tag \<^verbatim>\<open>rates\<close> returns that unit.
\<close>

theorem find_relevant_other_domain_counterexample:
  "index_get (domain_index kb_one) ''legal'' = []
   \<and> find_relevant_knowledge insertion_order kb_one ''legal'' (Some [''rates'']) None = [unit_rates]
   \<and> domain unit_rates = ''finance''"
  by (simp add: find_relevant_knowledge_def kb_one_def kb_empty_unfold add_knowledge_unit_def
      save_knowledge_base_def index_get_def index_append_def py_set_def unit_rates_def Let_def)

text \<open>
  Claim C3, amended. \<^const>\<open>find_relevant_knowledge\<close> is total: it never raises. On a store
  without units it returns the empty list, whatever tags and keywords are given. With
  nothing indexed under the domain it returns the empty list when neither tags nor
  keywords are given. On a store that satisfies \<^const>\<open>dict_ok\<close> and \<^const>\<open>index_exact\<close>, every
  returned unit is a stored unit of the requested domain, provided that neither tags
  nor keywords are given, or that the domain has indexed units and at most one of tags
  and keywords is given or some unit of the domain carries one of the tags. (Where
  the candidates are empty when tags or keywords are applied, the source replaces
  them by the tag or keyword matches of all domains.) All of this holds for every
  order in which the set of candidates is iterated.
\<close>

theorem find_relevant_within_domain:
  assumes "dict_ok kb" and "index_exact kb"
  shows "(knowledge_units kb = [] \<longrightarrow> find_relevant_knowledge order kb d tgs kws = [])
    \<and> (index_get (domain_index kb) d = [] \<and> not_given tgs \<and> not_given kws \<longrightarrow>
          find_relevant_knowledge order kb d tgs kws = [])
    \<and> ((not_given tgs \<and> not_given kws)
          \<or> (index_get (domain_index kb) d \<noteq> []
              \<and> (not_given tgs \<or> not_given kws
                  \<or> set (index_get (domain_index kb) d) \<inter> ids_under_tags kb tgs \<noteq> {})) \<longrightarrow>
          (\<forall>u \<in> set (find_relevant_knowledge order kb d tgs kws).
              domain u = d \<and> (unit_id u, u) \<in> set (knowledge_units kb)))"
proof -
  have a: "knowledge_units kb = [] \<longrightarrow> find_relevant_knowledge order kb d tgs kws = []"
    by (simp add: find_relevant_empty_store)
  have b: "index_get (domain_index kb) d = [] \<and> not_given tgs \<and> not_given kws \<longrightarrow>
             find_relevant_knowledge order kb d tgs kws = []"
    by (simp add: find_relevant_none_indexed)
  have c: "\<forall>u \<in> set (find_relevant_knowledge order kb d tgs kws).
             domain u = d \<and> (unit_id u, u) \<in> set (knowledge_units kb)"
    if c: "(not_given tgs \<and> not_given kws)
          \<or> (index_get (domain_index kb) d \<noteq> []
              \<and> (not_given tgs \<or> not_given kws
                  \<or> set (index_get (domain_index kb) d) \<inter> ids_under_tags kb tgs \<noteq> {}))"
  proof
    fix u
    assume u: "u \<in> set (find_relevant_knowledge order kb d tgs kws)"
    from find_relevant_indexed [OF u c]
    obtain uid where "uid \<in> set (index_get (domain_index kb) d)"
      and "map_of (knowledge_units kb) uid = Some u"
      by blast
    from indexed_unit_domain [OF assms this]
    show "domain u = d \<and> (unit_id u, u) \<in> set (knowledge_units kb)" by simp
  qed
  from a b c show ?thesis by blast
qed

theorem find_relevant_within_domain_witness:
  "dict_ok kb_two \<and> index_exact kb_two
   \<and> find_relevant_knowledge insertion_order kb_two ''finance'' (Some [''equity'']) None = [unit_equity]
   \<and> index_get (domain_index kb_two) ''finance'' \<noteq> []
   \<and> not_given None
   \<and> domain unit_equity = ''finance''
   \<and> (unit_id unit_equity, unit_equity) \<in> set (knowledge_units kb_two)
   \<and> find_relevant_knowledge insertion_order kb_empty ''finance'' (Some [''equity'']) (Some [''rates'']) = []"
proof -
  have r: "find_relevant_knowledge insertion_order kb_two ''finance'' (Some [''equity'']) None = [unit_equity]"
    by (simp add: find_relevant_knowledge_def kb_two_def kb_one_def kb_empty_unfold
        add_knowledge_unit_def save_knowledge_base_def index_get_def index_append_def
        py_set_def set_inter_def unit_rates_def unit_equity_def Let_def)
  have i: "index_get (domain_index kb_two) ''finance'' \<noteq> []"
    by (simp add: kb_two_def kb_one_def kb_empty_unfold add_knowledge_unit_def
        save_knowledge_base_def index_get_def index_append_def unit_rates_def unit_equity_def
        Let_def)
  have n: "not_given None" by (simp add: not_given_def)
  have e: "knowledge_units kb_empty = []" by (simp add: kb_empty_unfold)
  note w = find_relevant_within_domain [OF kb_two_ok, where order = insertion_order
      and d = "''finance''" and tgs = "Some [''equity'']" and kws = None]
  note w0 = find_relevant_within_domain [OF kb_empty_ok(1,2), where order = insertion_order
      and d = "''finance''" and tgs = "Some [''equity'']" and kws = "Some [''rates'']"]
  from w r i n have "domain unit_equity = ''finance''
      \<and> (unit_id unit_equity, unit_equity) \<in> set (knowledge_units kb_two)"
    by simp
  moreover from w0 e
  have "find_relevant_knowledge insertion_order kb_empty ''finance'' (Some [''equity'']) (Some [''rates'']) = []"
    by simp
  ultimately show ?thesis using kb_two_ok r i n by simp
qed

section \<open>Saving and loading\<close>

lemma data_to_unit_inverse:
  assumes "valid_datetime (creation_time unit)"
  shows "data_to_unit (unit_to_data unit) = Some unit"
  using assms by (simp add: data_to_unit_def unit_to_data_def fromisoformat_isoformat)

text \<open>Loading what was saved adds the saved units one by one, in their order.\<close>

lemma load_units_saved:
  assumes "list_all (\<lambda>(k, unit). valid_datetime (creation_time unit)) us"
  shows "load_units kb (map (\<lambda>(k, unit). unit_to_data unit) us) =
           foldl (\<lambda>kb (k, unit). add_knowledge_unit kb unit None) kb us"
  using assms
  by (induction us arbitrary: kb) (auto simp: data_to_unit_inverse)

lemma foldl_add_units:
  assumes "distinct (map fst (knowledge_units kb) @ map fst us)"
    and "list_all (\<lambda>(k, unit). unit_id unit = k) us"
  shows "knowledge_units (foldl (\<lambda>kb (k, unit). add_knowledge_unit kb unit None) kb us) =
           knowledge_units kb @ us"
  using assms
proof (induction us arbitrary: kb)
  case Nil
  then show ?case by simp
next
  case (Cons ku us)
  obtain k unit where ku: "ku = (k, unit)" by (cases ku)
  from Cons.prems ku have id: "unit_id unit = k"
    and fresh: "k \<notin> fst ` set (knowledge_units kb)"
    and rest: "list_all (\<lambda>(k, unit). unit_id unit = k) us"
    by auto
  let ?kb = "add_knowledge_unit kb unit None"
  have units: "knowledge_units ?kb = knowledge_units kb @ [(k, unit)]"
    using fresh id by (simp add: update_fresh)
  have "distinct (map fst (knowledge_units ?kb) @ map fst us)"
    unfolding units using Cons.prems ku by auto
  from Cons.IH [OF this rest] show ?case
    unfolding units by (simp add: ku)
qed

lemma foldl_add_invariants:
  assumes "dict_ok kb" and "index_exact kb"
    and "distinct (map fst (knowledge_units kb) @ map fst us)"
    and "list_all (\<lambda>(k, unit). unit_id unit = k) us"
  shows "dict_ok (foldl (\<lambda>kb (k, unit). add_knowledge_unit kb unit None) kb us)
         \<and> index_exact (foldl (\<lambda>kb (k, unit). add_knowledge_unit kb unit None) kb us)"
  using assms
proof (induction us arbitrary: kb)
  case Nil
  then show ?case by simp
next
  case (Cons ku us)
  obtain k unit where ku: "ku = (k, unit)" by (cases ku)
  from Cons.prems ku have id: "unit_id unit = k"
    and fresh: "unit_id unit \<notin> fst ` set (knowledge_units kb)"
    and rest: "list_all (\<lambda>(k, unit). unit_id unit = k) us"
    by auto
  let ?kb = "add_knowledge_unit kb unit None"
  have units: "knowledge_units ?kb = knowledge_units kb @ [(k, unit)]"
    using fresh id by (simp add: update_fresh)
  have d: "distinct (map fst (knowledge_units ?kb) @ map fst us)"
    unfolding units using Cons.prems ku by auto
  from Cons.IH [OF dict_ok_add [OF Cons.prems(1)]
      index_exact_add_fresh [OF Cons.prems(2) fresh] d rest]
  show ?case by (simp add: ku)
qed

lemma add_kb_file_None [simp]:
  "kb_file (add_knowledge_unit kb unit None) = kb_file kb"
  by (simp add: add_knowledge_unit_def Let_def)

lemma foldl_add_kb_file:
  "kb_file (foldl (\<lambda>kb (k, unit). add_knowledge_unit kb unit None) kb us) = kb_file kb"
  by (induction us arbitrary: kb) auto

lemma index_exact_same_units:
  assumes "index_exact kb" and "index_exact kb'"
    and "knowledge_units kb' = knowledge_units kb"
  shows "set (index_get (domain_index kb') d) = set (index_get (domain_index kb) d)"
    and "set (index_get (tag_index kb') t) = set (index_get (tag_index kb) t)"
  using assms by (simp_all add: index_exact_def ids_with_domain_def ids_with_tag_def)

text \<open>The store constructed from a file that was just saved.\<close>

lemma init_of_saved:
  assumes "timestamps_ok kb"
  shows "KnowledgeBase_init (kb_file (save_knowledge_base kb now)) =
           foldl (\<lambda>kb (k, unit). add_knowledge_unit kb unit None)
             \<lparr> knowledge_units = [], domain_index = Map.empty, tag_index = Map.empty,
               kb_file = kb_file (save_knowledge_base kb now) \<rparr>
             (knowledge_units kb)"
proof -
  from assms have "list_all (\<lambda>(k, unit). valid_datetime (creation_time unit)) (knowledge_units kb)"
    by (simp add: timestamps_ok_def)
  from load_units_saved [OF this] show ?thesis
    by (simp add: KnowledgeBase_init_def load_knowledge_base_def save_knowledge_base_def)
qed

lemma example_times_valid: "valid_datetime t_morning" "valid_datetime t_noon"
  by (simp_all add: valid_datetime_def t_morning_def t_noon_def days_in_month_def)

lemma kb_retagged_units:
  "knowledge_units kb_retagged = [(''t1_0_9f2c41aa'', unit_rates_retagged)]"
  by (simp add: kb_retagged_def kb_one_units unit_rates_retagged_def unit_rates_def)

lemma kb_retagged_ok: "dict_ok kb_retagged" "timestamps_ok kb_retagged"
  using example_times_valid
  by (simp_all add: dict_ok_def timestamps_ok_def kb_retagged_units unit_rates_retagged_def
      unit_rates_def)

lemma kb_two_units:
  "knowledge_units kb_two =
     [(''t1_0_9f2c41aa'', unit_rates), (''t2_0_07d15e3b'', unit_equity)]"
  by (simp add: kb_two_def kb_one_units unit_equity_def)

lemma kb_two_timestamps: "timestamps_ok kb_two"
  using example_times_valid
  by (simp add: timestamps_ok_def kb_two_units unit_rates_def unit_equity_def)

text \<open>
  Claim C7 as stated does not hold for every store state. In \<^const>\<open>kb_retagged\<close> the unit
  \<^verbatim>\<open>t1_0_9f2c41aa\<close> was added with the tags \<^verbatim>\<open>rates\<close> and \<^verbatim>\<open>bonds\<close> and then again with the
  tag \<^verbatim>\<open>macro\<close>: the tag index still lists it under \<^verbatim>\<open>rates\<close>. After saving and loading
  into a fresh store nothing is listed under \<^verbatim>\<open>rates\<close>.
\<close>

theorem snapshot_index_counterexample:
  "dict_ok kb_retagged \<and> timestamps_ok kb_retagged
   \<and> set (index_get (tag_index kb_retagged) ''rates'') = {''t1_0_9f2c41aa''}
   \<and> set (index_get (tag_index
             (KnowledgeBase_init (kb_file (save_knowledge_base kb_retagged t_noon)))) ''rates'') = {}"
proof -
  have before: "set (index_get (tag_index kb_retagged) ''rates'') = {''t1_0_9f2c41aa''}"
    by (simp add: kb_retagged_def kb_one_def add_tag_index kb_empty_unfold
        unit_rates_def unit_rates_retagged_def)
  have after: "set (index_get (tag_index
             (KnowledgeBase_init (kb_file (save_knowledge_base kb_retagged t_noon)))) ''rates'') = {}"
    by (simp add: init_of_saved [OF kb_retagged_ok(2)] kb_retagged_units add_tag_index
        unit_rates_retagged_def unit_rates_def)
  from kb_retagged_ok before after show ?thesis by simp
qed

text \<open>
  Claim C7, amended. For a store whose unit dictionary files every unit under its own
  id (\<^const>\<open>dict_ok\<close>, which every store built by the class satisfies) and whose creation
  times are datetimes: saving and loading into a fresh store gives the same unit
  dictionary, entry by entry and field by field, in the same order, and indexes that
  are rebuilt from the loaded units and exact for them. The sets of ids under every
  domain and tag are the same as before when the indexes of the saved store were
  exact (\<^const>\<open>index_exact\<close>); entries left in the index by an older version of a unit are
  not reproduced.
\<close>

theorem snapshot_round_trip:
  assumes "dict_ok kb" and "timestamps_ok kb"
  shows "knowledge_units (KnowledgeBase_init (kb_file (save_knowledge_base kb now))) =
           knowledge_units kb
    \<and> kb_file (KnowledgeBase_init (kb_file (save_knowledge_base kb now))) =
        kb_file (save_knowledge_base kb now)
    \<and> index_exact (KnowledgeBase_init (kb_file (save_knowledge_base kb now)))
    \<and> (index_exact kb \<longrightarrow>
         (\<forall>d. set (index_get (domain_index (KnowledgeBase_init (kb_file (save_knowledge_base kb now)))) d) =
               set (index_get (domain_index kb) d))
         \<and> (\<forall>t. set (index_get (tag_index (KnowledgeBase_init (kb_file (save_knowledge_base kb now)))) t) =
               set (index_get (tag_index kb) t)))"
proof -
  let ?file = "kb_file (save_knowledge_base kb now)"
  let ?kb0 = "\<lparr> knowledge_units = [], domain_index = Map.empty, tag_index = Map.empty,
                kb_file = ?file \<rparr>"
  let ?us = "knowledge_units kb"
  let ?loaded = "foldl (\<lambda>kb (k, unit). add_knowledge_unit kb unit None) ?kb0 ?us"
  from assms(2) have ts: "list_all (\<lambda>(k, unit). valid_datetime (creation_time unit)) ?us"
    by (simp add: timestamps_ok_def)
  from assms(1) have dist: "distinct (map fst (knowledge_units ?kb0) @ map fst ?us)"
    and ids: "list_all (\<lambda>(k, unit). unit_id unit = k) ?us"
    by (simp_all add: dict_ok_def)
  have init: "KnowledgeBase_init ?file = ?loaded"
    by (simp add: KnowledgeBase_init_def load_knowledge_base_def save_knowledge_base_def
        load_units_saved [OF ts])
  have ok0: "dict_ok ?kb0" "index_exact ?kb0"
    by (simp_all add: dict_ok_def index_exact_def ids_with_domain_def ids_with_tag_def
        index_get_def)
  have units: "knowledge_units ?loaded = ?us"
    using foldl_add_units [OF dist ids] by simp
  have exact: "index_exact ?loaded"
    using foldl_add_invariants [OF ok0 dist ids] by simp
  have fl: "kb_file ?loaded = ?file"
    by (simp add: foldl_add_kb_file)
  have idx: "(\<forall>d. set (index_get (domain_index ?loaded) d) = set (index_get (domain_index kb) d))
         \<and> (\<forall>t. set (index_get (tag_index ?loaded) t) = set (index_get (tag_index kb) t))"
    if "index_exact kb"
    using index_exact_same_units [OF that exact units] by simp
  show ?thesis
    unfolding init using units exact fl idx by blast
qed

theorem snapshot_round_trip_witness:
  "dict_ok kb_two \<and> timestamps_ok kb_two \<and> index_exact kb_two
   \<and> knowledge_units (KnowledgeBase_init (kb_file (save_knowledge_base kb_two t_noon))) =
       [(''t1_0_9f2c41aa'', unit_rates), (''t2_0_07d15e3b'', unit_equity)]
   \<and> set (index_get (domain_index
             (KnowledgeBase_init (kb_file (save_knowledge_base kb_two t_noon)))) ''finance'') =
       set (index_get (domain_index kb_two) ''finance'')
   \<and> set (index_get (tag_index
             (KnowledgeBase_init (kb_file (save_knowledge_base kb_two t_noon)))) ''bonds'') =
       set (index_get (tag_index kb_two) ''bonds'')"
  using snapshot_round_trip [OF kb_two_ok(1) kb_two_timestamps, of t_noon] kb_two_ok
    kb_two_timestamps kb_two_units
  by simp

section \<open>Consistency score\<close>

lemma length_set_inter:
  "distinct xs \<Longrightarrow> length (set_inter xs ys) = card (set xs \<inter> set ys)"
proof -
  assume d: "distinct xs"
  then have "distinct (set_inter xs ys)" by (simp add: set_inter_def)
  moreover have "set (set_inter xs ys) = set xs \<inter> set ys" by (auto simp: set_inter_def)
  ultimately show ?thesis by (metis distinct_card)
qed

lemma length_set_union:
  "distinct xs \<Longrightarrow> distinct ys \<Longrightarrow> length (set_union xs ys) = card (set xs \<union> set ys)"
proof -
  assume d: "distinct xs" "distinct ys"
  then have "distinct (set_union xs ys)" by (auto simp: set_union_def)
  moreover have "set (set_union xs ys) = set xs \<union> set ys" by (auto simp: set_union_def)
  ultimately show ?thesis by (metis distinct_card)
qed

lemma words_of_tokens [simp]: "set (words_of text) = tokens text" "distinct (words_of text)"
  by (simp_all add: words_of_def tokens_def)

lemma finite_tokens [simp]: "finite (tokens text)"
  by (simp add: tokens_def)

lemma jaccard_bounds:
  assumes "finite A" and "finite B"
  shows "0 \<le> jaccard A B" and "jaccard A B \<le> 1"
proof -
  show "0 \<le> jaccard A B" by (simp add: jaccard_def)
  have "card (A \<inter> B) \<le> card (A \<union> B)"
    using assms by (intro card_mono) auto
  then have "real (card (A \<inter> B)) \<le> real (card (A \<union> B))" by simp
  then show "jaccard A B \<le> 1"
    unfolding jaccard_def by (cases "card (A \<union> B) = 0") (simp_all add: divide_le_eq_1)
qed

lemma jaccard_empty [simp]: "jaccard {} B = 0" "jaccard A {} = 0"
  by (simp_all add: jaccard_def)

text \<open>One round of the loop takes the maximum with the Jaccard similarity.\<close>

lemma similarity_step_max:
  assumes "0 \<le> m"
  shows "similarity_step new_unit m e =
           max m (jaccard (tokens (content new_unit)) (tokens (content e)))"
proof (cases "words_of (content new_unit) \<noteq> [] \<and> words_of (content e) \<noteq> []")
  case True
  let ?A = "tokens (content new_unit)" and ?B = "tokens (content e)"
  from True have "?A \<noteq> {}"
    by (metis words_of_tokens(1) set_empty)
  then have "card (?A \<union> ?B) > 0" by (simp add: card_gt_0_iff)
  with True show ?thesis
    by (simp add: similarity_step_def Let_def length_set_inter length_set_union jaccard_def)
next
  case False
  then have "tokens (content new_unit) = {} \<or> tokens (content e) = {}"
    by (metis words_of_tokens(1) set_empty)
  then have "jaccard (tokens (content new_unit)) (tokens (content e)) = 0" by auto
  with False assms show ?thesis
    by (auto simp: similarity_step_def Let_def)
qed

lemma foldl_similarity_step:
  assumes "0 \<le> m"
  shows "foldl (similarity_step new_unit) m es =
           Max (insert m ((\<lambda>e. jaccard (tokens (content new_unit)) (tokens (content e))) ` set es))"
  using assms
proof (induction es arbitrary: m)
  case Nil
  then show ?case by simp
next
  case (Cons e es)
  let ?f = "\<lambda>e. jaccard (tokens (content new_unit)) (tokens (content e))"
  have "0 \<le> max m (?f e)" using Cons.prems by simp
  from Cons.IH [OF this] similarity_step_max [OF Cons.prems]
  have "foldl (similarity_step new_unit) m (e # es) = Max (insert (max m (?f e)) (?f ` set es))"
    by simp
  also have "\<dots> = Max (insert m (insert (?f e) (?f ` set es)))"
  proof (cases "es = []")
    case True
    then show ?thesis by simp
  next
    case False
    then have "finite (?f ` set es)" and "?f ` set es \<noteq> {}" by simp_all
    then show ?thesis by (simp add: max.assoc)
  qed
  finally show ?case by simp
qed

lemma unit_consistency_bounds:
  assumes "compared \<noteq> []"
  shows "0 \<le> unit_consistency compared new_unit" and "unit_consistency compared new_unit \<le> 1"
proof -
  let ?S = "(\<lambda>e. jaccard (tokens (content new_unit)) (tokens (content e))) ` set compared"
  from assms have ne: "?S \<noteq> {}" and fin: "finite ?S" by simp_all
  have b: "\<forall>x \<in> ?S. 0 \<le> x \<and> x \<le> 1" using jaccard_bounds by auto
  from Max_in [OF fin ne] have "Max ?S \<in> ?S" .
  with b have "0 \<le> Max ?S \<and> Max ?S \<le> 1" by blast
  then show "0 \<le> unit_consistency compared new_unit"
    and "unit_consistency compared new_unit \<le> 1"
    unfolding unit_consistency_def by simp_all
qed

lemma foldl_unit_consistency:
  assumes "compared \<noteq> []"
  shows "foldl (similarity_step new_unit) 0 compared = unit_consistency compared new_unit"
proof -
  let ?S = "(\<lambda>e. jaccard (tokens (content new_unit)) (tokens (content e))) ` set compared"
  from assms have ne: "?S \<noteq> {}" and fin: "finite ?S" by simp_all
  have "foldl (similarity_step new_unit) 0 compared = Max (insert 0 ?S)"
    by (simp add: foldl_similarity_step)
  also have "\<dots> = max 0 (Max ?S)"
    using ne fin by simp
  also have "\<dots> = Max ?S"
    using unit_consistency_bounds(1) [OF assms, of new_unit]
    by (simp add: unit_consistency_def)
  finally show ?thesis by (simp add: unit_consistency_def)
qed

lemma mean_unit_interval:
  assumes "xs \<noteq> []" and "\<forall>x \<in> set xs. 0 \<le> x \<and> x \<le> (1::real)"
  shows "0 \<le> mean xs" and "mean xs \<le> 1"
proof -
  from assms(2) have "0 \<le> sum_list xs"
    by (simp add: sum_list_nonneg)
  then show "0 \<le> mean xs" by (simp add: mean_def)
  from assms(2) have "sum_list xs \<le> real (length xs)"
    by (induction xs) auto
  then show "mean xs \<le> 1"
    using assms(1) by (simp add: mean_def divide_le_eq_1)
qed

lemma consistency_mean:
  assumes "new_units \<noteq> []" and "find_relevant_knowledge order kb d None None \<noteq> []"
  shows "calculate_knowledge_consistency order kb new_units d =
           mean (map (unit_consistency (take 10 (find_relevant_knowledge order kb d None None)))
                     new_units)"
proof -
  from assms(2) have "take 10 (find_relevant_knowledge order kb d None None) \<noteq> []" by simp
  then show ?thesis
    using assms
    by (simp add: calculate_knowledge_consistency_def Let_def mean_def foldl_unit_consistency)
qed

text \<open>
  On a store that satisfies the invariants, the units found for a domain are exactly
  the stored units of that domain, each once, in descending order of quality.
\<close>

lemma distinct_lookup_units:
  assumes "distinct ids" and "\<forall>uid u. map_of al uid = Some u \<longrightarrow> unit_id u = uid"
  shows "distinct (concat (map (\<lambda>uid. case map_of al uid of None \<Rightarrow> [] | Some unit \<Rightarrow> [unit])
                               ids))"
  using assms(1)
proof (induction ids)
  case Nil
  then show ?case by simp
next
  case (Cons uid ids)
  then have "distinct (concat (map (\<lambda>uid. case map_of al uid of None \<Rightarrow> []
                                             | Some unit \<Rightarrow> [unit]) ids))"
    and notin: "uid \<notin> set ids"
    by simp_all
  moreover have "u \<notin> set (concat (map (\<lambda>uid. case map_of al uid of None \<Rightarrow> []
                                             | Some unit \<Rightarrow> [unit]) ids))"
    if "map_of al uid = Some u" for u
  proof
    assume "u \<in> set (concat (map (\<lambda>uid. case map_of al uid of None \<Rightarrow> []
                                             | Some unit \<Rightarrow> [unit]) ids))"
    then obtain uid' where "uid' \<in> set ids" and "map_of al uid' = Some u"
      by (auto simp: lookup_units_set)
    with assms(2) that have "uid' = uid" by metis
    with \<open>uid' \<in> set ids\<close> notin show False by simp
  qed
  ultimately show ?case by (auto split: option.splits)
qed

lemma dict_ok_lookup:
  assumes "dict_ok kb" and "map_of (knowledge_units kb) uid = Some u"
  shows "unit_id u = uid"
proof -
  from map_of_SomeD [OF assms(2)] have "(uid, u) \<in> set (knowledge_units kb)" .
  with assms(1) show ?thesis by (auto simp: dict_ok_def list_all_iff)
qed

lemma find_relevant_domain_units:
  assumes "dict_ok kb" and "index_exact kb"
  shows "set (find_relevant_knowledge order kb d None None) = units_of_domain kb d"
    and "distinct (find_relevant_knowledge order kb d None None)"
    and "sorted (map (\<lambda>unit. - quality_score unit)
                   (find_relevant_knowledge order kb d None None))"
proof -
  have n: "not_given None" by (simp add: not_given_def)
  note plain = find_relevant_plain [OF n n, of order kb d]
  show "set (find_relevant_knowledge order kb d None None) = units_of_domain kb d"
  proof (intro set_eqI iffI)
    fix u
    assume u: "u \<in> set (find_relevant_knowledge order kb d None None)"
    from find_relevant_indexed [OF u] n
    obtain uid where "uid \<in> set (index_get (domain_index kb) d)"
      and "map_of (knowledge_units kb) uid = Some u"
      by blast
    from indexed_unit_domain [OF assms this] show "u \<in> units_of_domain kb d"
      by (simp add: units_of_domain_def)
  next
    fix u
    assume "u \<in> units_of_domain kb d"
    then have mem: "(unit_id u, u) \<in> set (knowledge_units kb)" and d: "domain u = d"
      by (simp_all add: units_of_domain_def)
    from mem d have "unit_id u \<in> ids_with_domain kb d"
      by (force simp: ids_with_domain_def)
    with assms(2) have idx: "unit_id u \<in> set (index_get (domain_index kb) d)"
      by (simp add: index_exact_def)
    from assms(1) have "distinct (map fst (knowledge_units kb))"
      by (simp add: dict_ok_def)
    from map_of_is_SomeI [OF this mem]
    have look: "map_of (knowledge_units kb) (unit_id u) = Some u" .
    show "u \<in> set (find_relevant_knowledge order kb d None None)"
      unfolding plain set_sort lookup_units_set py_iter_props py_set_props
      using look idx by blast
  qed
  have "\<forall>uid u. map_of (knowledge_units kb) uid = Some u \<longrightarrow> unit_id u = uid"
    using dict_ok_lookup [OF assms(1)] by blast
  from distinct_lookup_units [OF _ this, of "py_iter order (py_set (index_get (domain_index kb) d))"]
  show "distinct (find_relevant_knowledge order kb d None None)"
    unfolding plain by simp
  show "sorted (map (\<lambda>unit. - quality_score unit)
                   (find_relevant_knowledge order kb d None None))"
    unfolding plain by (rule sorted_sort_key)
qed

lemma kb_moved_units:
  "knowledge_units kb_moved = [(''t1_0_9f2c41aa'', unit_rates_moved)]"
  by (simp add: kb_moved_def kb_one_units unit_rates_moved_def unit_rates_def)

lemma kb_moved_finance:
  "find_relevant_knowledge insertion_order kb_moved ''finance'' None None = [unit_rates_moved]"
  by (simp add: find_relevant_knowledge_def kb_moved_def kb_one_def kb_empty_unfold
      add_knowledge_unit_def save_knowledge_base_def index_get_def index_append_def
      py_set_def unit_rates_def unit_rates_moved_def Let_def)

lemma words_moved:
  "words_of (content unit_rates_moved) =
     [''bond'', ''prices'', ''fall'', ''when'', ''rates'', ''rise'']"
  by (simp add: words_of_def unit_rates_moved_def unit_rates_def py_set_def str_split_def
      str_lower_def char_lower_def is_space_def)

lemma kb_two_finance:
  "find_relevant_knowledge insertion_order kb_two ''finance'' None None = [unit_equity, unit_rates]"
  by (simp add: find_relevant_knowledge_def kb_two_def kb_one_def kb_empty_unfold
      add_knowledge_unit_def save_knowledge_base_def index_get_def index_append_def
      py_set_def unit_rates_def unit_equity_def Let_def)

lemma words_new: "words_of (content unit_new) = [''bond'', ''prices'', ''rise'']"
  by (simp add: words_of_def unit_new_def py_set_def str_split_def str_lower_def
      char_lower_def is_space_def)

lemma words_rates:
  "words_of (content unit_rates) = [''bond'', ''prices'', ''fall'', ''when'', ''rates'', ''rise'']"
  by (simp add: words_of_def unit_rates_def py_set_def str_split_def str_lower_def
      char_lower_def is_space_def)

lemma words_equity:
  "words_of (content unit_equity) =
     [''equity'', ''prices'', ''rise'', ''when'', ''rates'', ''fall'']"
  by (simp add: words_of_def unit_equity_def py_set_def str_split_def str_lower_def
      char_lower_def is_space_def)

lemma consistency_example:
  "calculate_knowledge_consistency insertion_order kb_two [unit_new] ''finance'' = 1 / 2"
  by (simp add: calculate_knowledge_consistency_def kb_two_finance similarity_step_def
      words_new words_rates words_equity set_inter_def set_union_def Let_def)

text \<open>
  Claim C6 as stated does not hold for every store state. In \<^const>\<open>kb_moved\<close> the unit
  \<^verbatim>\<open>t1_0_9f2c41aa\<close> was added with the domain \<^verbatim>\<open>finance\<close> and then again, under the same id,
  with the domain \<^verbatim>\<open>legal\<close>. No stored unit has the domain \<^verbatim>\<open>finance\<close>, but the domain index
  still lists the id there: the new unit is compared with the unit of domain \<^verbatim>\<open>legal\<close>,
  and the consistency for \<^verbatim>\<open>finance\<close> is \<open>1/2\<close>, not \<open>1\<close>.
\<close>

theorem consistency_stale_index_counterexample:
  "kb_moved = add_knowledge_unit kb_one unit_rates_moved (Some t_noon)
   \<and> units_of_domain kb_moved ''finance'' = {}
   \<and> map domain (find_relevant_knowledge insertion_order kb_moved ''finance'' None None) =
       [''legal'']
   \<and> calculate_knowledge_consistency insertion_order kb_moved [unit_new] ''finance'' = 1 / 2"
proof -
  have "units_of_domain kb_moved ''finance'' = {}"
    by (auto simp: units_of_domain_def kb_moved_units unit_rates_moved_def)
  moreover have "map domain (find_relevant_knowledge insertion_order kb_moved ''finance'' None None) =
       [''legal'']"
    by (simp add: kb_moved_finance unit_rates_moved_def)
  moreover have "calculate_knowledge_consistency insertion_order kb_moved [unit_new] ''finance'' = 1 / 2"
    by (simp add: calculate_knowledge_consistency_def kb_moved_finance similarity_step_def
        words_new words_moved set_inter_def set_union_def Let_def)
  ultimately show ?thesis using kb_moved_def by blast
qed

text \<open>
  Claim C6, amended. For every store, every order of iteration, every list of new
  units and every domain: the consistency is \<open>1\<close> when the list of new units is empty or
  no unit is found for the domain (in particular when nothing is indexed under it);
  otherwise it is the mean, over the new units, of the largest Jaccard similarity
  between the token set of the new unit and the token sets of the first ten units
  found for the domain (two empty token sets counting as similarity \<open>0\<close>); in every
  case it lies in \<open>[0, 1]\<close>. On a store that satisfies \<^const>\<open>dict_ok\<close> and \<^const>\<open>index_exact\<close>,
  the units found are exactly the stored units of the domain, each once, in descending
  order of quality, so that the comparison is against the top ten units of that
  domain, and the consistency is \<open>1\<close> when the store has no unit of the domain. (On
  other stores the comparison is against the units still listed under the domain.)
\<close>

theorem consistency_is_mean_of_max_jaccard:
  "calculate_knowledge_consistency order kb [] d = 1
   \<and> (find_relevant_knowledge order kb d None None = [] \<longrightarrow>
         calculate_knowledge_consistency order kb new_units d = 1)
   \<and> (index_get (domain_index kb) d = [] \<longrightarrow>
         calculate_knowledge_consistency order kb new_units d = 1)
   \<and> (new_units \<noteq> [] \<and> find_relevant_knowledge order kb d None None \<noteq> [] \<longrightarrow>
         calculate_knowledge_consistency order kb new_units d =
           mean (map (unit_consistency (take 10 (find_relevant_knowledge order kb d None None)))
                     new_units))
   \<and> 0 \<le> calculate_knowledge_consistency order kb new_units d
   \<and> calculate_knowledge_consistency order kb new_units d \<le> 1
   \<and> (dict_ok kb \<and> index_exact kb \<longrightarrow>
         set (find_relevant_knowledge order kb d None None) = units_of_domain kb d
         \<and> distinct (find_relevant_knowledge order kb d None None)
         \<and> sorted (map (\<lambda>unit. - quality_score unit)
                       (find_relevant_knowledge order kb d None None))
         \<and> (units_of_domain kb d = {} \<longrightarrow>
               calculate_knowledge_consistency order kb new_units d = 1))"
proof -
  let ?ex = "find_relevant_knowledge order kb d None None"
  have a: "calculate_knowledge_consistency order kb [] d = 1"
    by (simp add: calculate_knowledge_consistency_def)
  have b: "calculate_knowledge_consistency order kb new_units d = 1" if "?ex = []"
    using that by (simp add: calculate_knowledge_consistency_def)
  have n: "not_given None" by (simp add: not_given_def)
  have c: "calculate_knowledge_consistency order kb new_units d = 1"
    if "index_get (domain_index kb) d = []"
    using find_relevant_none_indexed [OF that n n] by (rule b)
  have e: "0 \<le> calculate_knowledge_consistency order kb new_units d
           \<and> calculate_knowledge_consistency order kb new_units d \<le> 1"
  proof (cases "new_units = [] \<or> ?ex = []")
    case True
    then show ?thesis by (auto simp: calculate_knowledge_consistency_def)
  next
    case False
    then have ne: "new_units \<noteq> []" and ex: "?ex \<noteq> []" by simp_all
    from ex have t: "take 10 ?ex \<noteq> []" by simp
    let ?xs = "map (unit_consistency (take 10 ?ex)) new_units"
    have "?xs \<noteq> []" using ne by simp
    moreover have "\<forall>x \<in> set ?xs. 0 \<le> x \<and> x \<le> 1"
      using unit_consistency_bounds [OF t] by auto
    ultimately have "0 \<le> mean ?xs \<and> mean ?xs \<le> 1"
      using mean_unit_interval by blast
    then show ?thesis by (simp add: consistency_mean [OF ne ex])
  qed
  have f: "set ?ex = units_of_domain kb d \<and> distinct ?ex
         \<and> sorted (map (\<lambda>unit. - quality_score unit) ?ex)
         \<and> (units_of_domain kb d = {} \<longrightarrow>
               calculate_knowledge_consistency order kb new_units d = 1)"
    if inv: "dict_ok kb \<and> index_exact kb"
  proof -
    from inv have ok: "dict_ok kb" "index_exact kb" by simp_all
    note fr = find_relevant_domain_units [OF ok, of order d]
    have "calculate_knowledge_consistency order kb new_units d = 1"
      if "units_of_domain kb d = {}"
    proof -
      from that fr(1) have "set ?ex = {}" by simp
      then have "?ex = []" by simp
      then show ?thesis by (rule b)
    qed
    with fr show ?thesis by blast
  qed
  from a b c e f consistency_mean show ?thesis by blast
qed

lemma kb_two_legal: "index_get (domain_index kb_two) ''legal'' = []"
  by (simp add: kb_two_def kb_one_def kb_empty_unfold add_knowledge_unit_def
      save_knowledge_base_def index_get_def index_append_def unit_rates_def unit_equity_def
      Let_def)

theorem consistency_is_mean_of_max_jaccard_witness:
  "dict_ok kb_two \<and> index_exact kb_two
   \<and> find_relevant_knowledge insertion_order kb_two ''finance'' None None =
       [unit_equity, unit_rates]
   \<and> units_of_domain kb_two ''finance'' = {unit_equity, unit_rates}
   \<and> calculate_knowledge_consistency insertion_order kb_two [unit_new] ''finance'' =
       mean [unit_consistency [unit_equity, unit_rates] unit_new]
   \<and> calculate_knowledge_consistency insertion_order kb_two [unit_new] ''finance'' = 1 / 2
   \<and> units_of_domain kb_two ''legal'' = {}
   \<and> calculate_knowledge_consistency insertion_order kb_two [unit_new] ''legal'' = 1
   \<and> calculate_knowledge_consistency insertion_order kb_two [] ''finance'' = 1"
proof -
  note w = consistency_is_mean_of_max_jaccard
    [of insertion_order kb_two "''finance''" "[unit_new]"]
  note w' = consistency_is_mean_of_max_jaccard
    [of insertion_order kb_two "''legal''" "[unit_new]"]
  have n: "not_given None" by (simp add: not_given_def)
  have l: "find_relevant_knowledge insertion_order kb_two ''legal'' None None = []"
    using find_relevant_none_indexed [OF kb_two_legal n n] .
  from w kb_two_finance
  have m: "calculate_knowledge_consistency insertion_order kb_two [unit_new] ''finance'' =
          mean [unit_consistency [unit_equity, unit_rates] unit_new]"
    and z: "calculate_knowledge_consistency insertion_order kb_two [] ''finance'' = 1"
    by simp_all
  from w kb_two_ok kb_two_finance
  have u: "units_of_domain kb_two ''finance'' = {unit_equity, unit_rates}"
    by auto
  from w' kb_two_ok l
  have e: "units_of_domain kb_two ''legal'' = {}"
    by auto
  with w' kb_two_ok
  have o: "calculate_knowledge_consistency insertion_order kb_two [unit_new] ''legal'' = 1"
    by blast
  from kb_two_ok kb_two_finance u m consistency_example e o z show ?thesis by blast
qed

section \<open>Sub-scores and their defaults\<close>

lemma default_scores_keys [simp]: "map fst (default_scores keys) = keys"
  by (simp add: default_scores_def comp_def)












end
